theory Spec2Isabelle
  imports Complex_Main
begin

section \<open>Numbers and vectors\<close>

text \<open>
  The game is TypeScript on top of three.js.  A JavaScript \<open>number\<close> is modelled as a
  \<^typ>\<open>real\<close>: comparisons, sums and products are the exact ones, and rounding of IEEE
  doubles, \<open>NaN\<close> and the infinities are not part of the model.  three.js is a
  dependency of the game, not part of its source: \<open>THREE.Vector3\<close> is a triple of
  numbers, and only the methods the game calls are defined, with the meaning three.js
  gives them (\<open>normalize\<close> divides by \<open>length() || 1\<close>, so the zero vector stays
  zero; \<open>copy\<close> and \<open>clone\<close> copy the components, so no two vectors of the model
  share storage).

  \<open>Math.random()\<close> is modelled by a stream \<open>rnd :: nat \<Rightarrow> real\<close>: \<open>rnd i\<close> is the value
  of the \<open>i\<close>-th draw made during one call.
\<close>

datatype vec3 = Vec3 (vx: real) (vy: real) (vz: real)

definition vzero :: vec3 where
  "vzero = Vec3 0 0 0"

definition vadd :: "vec3 \<Rightarrow> vec3 \<Rightarrow> vec3" where
  "vadd a b = Vec3 (vx a + vx b) (vy a + vy b) (vz a + vz b)"

definition vsub :: "vec3 \<Rightarrow> vec3 \<Rightarrow> vec3" where
  "vsub a b = Vec3 (vx a - vx b) (vy a - vy b) (vz a - vz b)"

definition multiplyScalar :: "vec3 \<Rightarrow> real \<Rightarrow> vec3" where
  "multiplyScalar a s = Vec3 (vx a * s) (vy a * s) (vz a * s)"

definition divideScalar :: "vec3 \<Rightarrow> real \<Rightarrow> vec3" where
  "divideScalar a s = multiplyScalar a (1 / s)"

definition dot :: "vec3 \<Rightarrow> vec3 \<Rightarrow> real" where
  "dot a b = vx a * vx b + vy a * vy b + vz a * vz b"

definition lengthSq :: "vec3 \<Rightarrow> real" where
  "lengthSq a = vx a * vx a + vy a * vy a + vz a * vz a"

definition vlength :: "vec3 \<Rightarrow> real" where
  "vlength a = sqrt (lengthSq a)"

definition normalize :: "vec3 \<Rightarrow> vec3" where
  "normalize a = divideScalar a (if vlength a = 0 then 1 else vlength a)"

definition distanceTo :: "vec3 \<Rightarrow> vec3 \<Rightarrow> real" where
  "distanceTo a b = vlength (vsub a b)"

definition lerp :: "vec3 \<Rightarrow> vec3 \<Rightarrow> real \<Rightarrow> vec3" where
  "lerp a b t = Vec3 (vx a + (vx b - vx a) * t) (vy a + (vy b - vy a) * t)
                     (vz a + (vz b - vz a) * t)"

definition mapLinear :: "real \<Rightarrow> real \<Rightarrow> real \<Rightarrow> real \<Rightarrow> real \<Rightarrow> real" where
  "mapLinear x a1 a2 b1 b2 = b1 + (x - a1) * (b2 - b1) / (a2 - a1)"

definition clamp :: "real \<Rightarrow> real \<Rightarrow> real \<Rightarrow> real" where
  "clamp v lo hi = max lo (min hi v)"

section \<open>The pursuit state machine (EnemyAI)\<close>

datatype EnemyState = Idle | Alert | Chase | Search

record EnemyAIState =
  state :: EnemyState
  stateTimer :: real
  lastKnownPlayerPos :: vec3
  searchWaypoints :: "vec3 list"
  currentWaypointIndex :: nat

definition ALERT_DURATION :: real where
  "ALERT_DURATION = 1 / 2"

definition SEARCH_DURATION :: real where
  "SEARCH_DURATION = 5"

definition VISION_DISTANCE :: real where
  "VISION_DISTANCE = 25"

definition WAYPOINT_REACH_DIST :: real where
  "WAYPOINT_REACH_DIST = 2"

definition createAIState :: EnemyAIState where
  "createAIState =
     \<lparr>state = Idle, stateTimer = 0, lastKnownPlayerPos = vzero,
      searchWaypoints = [], currentWaypointIndex = 0\<rparr>"

definition canSeePlayer :: "vec3 \<Rightarrow> vec3 \<Rightarrow> bool" where
  "canSeePlayer enemyPos playerPos = (distanceTo enemyPos playerPos \<le> VISION_DISTANCE)"

text \<open>
  \<open>generateSearchWaypoints\<close>: the projected position first (two draws for the jitter
  when the speed is below 1), then the loop \<open>for (i = 1; i < 4; i++)\<close>, one draw per
  round.  \<open>spiralWaypoint\<close> is the body of that loop; \<open>k\<close> is the number of draws made
  before the loop.
\<close>

definition searchRadius :: real where
  "searchRadius = 15"

definition angleStep :: real where
  "angleStep = pi / 1.5"

definition spiralAngle :: "(nat \<Rightarrow> real) \<Rightarrow> nat \<Rightarrow> nat \<Rightarrow> real" where
  "spiralAngle rnd k i = real i * angleStep + rnd (k + i - 1) * 1.0"

definition spiralWaypoint :: "vec3 \<Rightarrow> (nat \<Rightarrow> real) \<Rightarrow> nat \<Rightarrow> nat \<Rightarrow> vec3" where
  "spiralWaypoint lastKnownPos rnd k i =
     Vec3 (vx lastKnownPos + cos (spiralAngle rnd k i) * searchRadius)
          (vy lastKnownPos)
          (vz lastKnownPos + sin (spiralAngle rnd k i) * searchRadius)"

definition projectedWaypoint :: "vec3 \<Rightarrow> vec3 \<Rightarrow> (nat \<Rightarrow> real) \<Rightarrow> vec3" where
  "projectedWaypoint lastKnownPos playerVel rnd =
     (let speed = vlength playerVel;
          projectionDist = min (speed * 2) 15;
          projectedPos = vadd lastKnownPos (multiplyScalar (normalize playerVel) projectionDist)
      in if speed < 1
         then vadd projectedPos (Vec3 ((rnd 0 - 0.5) * 5) 0 ((rnd 1 - 0.5) * 5))
         else projectedPos)"

definition generateSearchWaypoints :: "vec3 \<Rightarrow> vec3 \<Rightarrow> (nat \<Rightarrow> real) \<Rightarrow> vec3 list" where
  "generateSearchWaypoints lastKnownPos playerVel rnd =
     (let k = (if vlength playerVel < 1 then 2 else 0)
      in projectedWaypoint lastKnownPos playerVel rnd
         # map (spiralWaypoint lastKnownPos rnd k) [1..<4])"

text \<open>
  \<open>updateAIState\<close> mutates the state object and returns its label; the model returns
  the label together with the updated object.  In the search branch the two draws of
  the random heading are made by the caller, before \<open>generateSearchWaypoints\<close> runs, so
  the generator sees the stream shifted by two.
\<close>

definition updateAI ::
  "EnemyAIState \<Rightarrow> bool \<Rightarrow> vec3 \<Rightarrow> real \<Rightarrow> vec3 \<Rightarrow> (nat \<Rightarrow> real) \<Rightarrow> EnemyAIState" where
  "updateAI ai0 playerVisible playerPos delta playerVel rnd =
     (let ai = ai0\<lparr>stateTimer := stateTimer ai0 + delta\<rparr>
      in case state ai of
           Idle \<Rightarrow>
             if playerVisible
             then ai\<lparr>state := Alert, stateTimer := 0, lastKnownPlayerPos := playerPos\<rparr>
             else ai
         | Alert \<Rightarrow>
             (if \<not> playerVisible
              then ai\<lparr>state := Search, stateTimer := 0,
                      searchWaypoints :=
                        generateSearchWaypoints (lastKnownPlayerPos ai) playerVel rnd\<rparr>
              else if stateTimer ai \<ge> ALERT_DURATION
              then ai\<lparr>state := Chase, stateTimer := 0\<rparr>
              else ai)\<lparr>lastKnownPlayerPos := playerPos\<rparr>
         | Chase \<Rightarrow>
             if playerVisible
             then ai\<lparr>lastKnownPlayerPos := playerPos\<rparr>
             else ai\<lparr>state := Search, stateTimer := 0,
                     searchWaypoints :=
                       generateSearchWaypoints (lastKnownPlayerPos ai) playerVel rnd,
                     currentWaypointIndex := 0\<rparr>
         | Search \<Rightarrow>
             if playerVisible
             then ai\<lparr>state := Chase, stateTimer := 0, lastKnownPlayerPos := playerPos\<rparr>
             else if stateTimer ai \<ge> SEARCH_DURATION
             then ai\<lparr>stateTimer := 0,
                     searchWaypoints :=
                       generateSearchWaypoints (lastKnownPlayerPos ai)
                         (Vec3 (rnd 0 - 0.5) 0 (rnd 1 - 0.5)) (\<lambda>i. rnd (i + 2)),
                     currentWaypointIndex := 0\<rparr>
             else ai)"

definition updateAIState ::
  "EnemyAIState \<Rightarrow> bool \<Rightarrow> vec3 \<Rightarrow> real \<Rightarrow> vec3 \<Rightarrow> (nat \<Rightarrow> real)
     \<Rightarrow> EnemyState \<times> EnemyAIState" where
  "updateAIState ai playerVisible playerPos delta playerVel rnd =
     (let ai' = updateAI ai playerVisible playerPos delta playerVel rnd
      in (state ai', ai'))"

definition getSpeedMultiplier :: "EnemyState \<Rightarrow> real" where
  "getSpeedMultiplier s =
     (case s of Idle \<Rightarrow> 0.0 | Alert \<Rightarrow> 0.1 | Chase \<Rightarrow> 1.5 | Search \<Rightarrow> 1.2)"

text \<open>
  \<open>getMovementTarget\<close> returns the target and, in the search state, may advance the
  waypoint index in place.  Reading \<open>searchWaypoints[currentWaypointIndex]\<close> out of
  range gives \<open>undefined\<close> in JavaScript, and \<open>distanceTo(undefined)\<close> throws.
\<close>

datatype js_error = TypeError

definition getMovementTarget ::
  "EnemyAIState \<Rightarrow> vec3 \<Rightarrow> vec3 \<Rightarrow> vec3 \<Rightarrow> js_error + (vec3 \<times> EnemyAIState)" where
  "getMovementTarget ai enemyPos playerPos playerVel =
     (case state ai of
        Idle \<Rightarrow> Inr (enemyPos, ai)
      | Alert \<Rightarrow> Inr (playerPos, ai)
      | Chase \<Rightarrow>
          (let d = distanceTo enemyPos playerPos;
               predictionTime = min (d / 15) 1.5
           in Inr (vadd playerPos (multiplyScalar playerVel predictionTime), ai))
      | Search \<Rightarrow>
          if length (searchWaypoints ai) > 0
          then if currentWaypointIndex ai < length (searchWaypoints ai)
               then (let wp = searchWaypoints ai ! currentWaypointIndex ai;
                         ai' = (if distanceTo enemyPos wp < WAYPOINT_REACH_DIST
                                then ai\<lparr>currentWaypointIndex :=
                                          (currentWaypointIndex ai + 1)
                                            mod length (searchWaypoints ai)\<rparr>
                                else ai)
                     in Inr (searchWaypoints ai' ! currentWaypointIndex ai', ai'))
               else Inl TypeError
          else Inr (lastKnownPlayerPos ai, ai))"

text \<open>
  An interleaving of the two entry points on one state object: each call carries its
  own arguments, and a thrown error ends the run.
\<close>

datatype ai_call =
    Update bool vec3 real vec3 "nat \<Rightarrow> real"
  | Target vec3 vec3 vec3

fun ai_step :: "EnemyAIState \<Rightarrow> ai_call \<Rightarrow> js_error + EnemyAIState" where
  "ai_step ai (Update visible playerPos delta playerVel rnd) =
     Inr (snd (updateAIState ai visible playerPos delta playerVel rnd))"
| "ai_step ai (Target enemyPos playerPos playerVel) =
     (case getMovementTarget ai enemyPos playerPos playerVel of
        Inl e \<Rightarrow> Inl e
      | Inr (t, ai') \<Rightarrow> Inr ai')"

fun ai_run :: "EnemyAIState \<Rightarrow> ai_call list \<Rightarrow> js_error + EnemyAIState" where
  "ai_run ai [] = Inr ai"
| "ai_run ai (c # cs) =
     (case ai_step ai c of Inl e \<Rightarrow> Inl e | Inr ai' \<Rightarrow> ai_run ai' cs)"

text \<open>A run of \<open>updateAIState\<close> calls that all pass \<open>playerVisible = false\<close>.\<close>

fun blind_updates :: "EnemyAIState \<Rightarrow> (vec3 \<times> real \<times> vec3 \<times> (nat \<Rightarrow> real)) list \<Rightarrow> EnemyAIState" where
  "blind_updates ai [] = ai"
| "blind_updates ai ((playerPos, delta, playerVel, rnd) # us) =
     blind_updates (snd (updateAIState ai False playerPos delta playerVel rnd)) us"

text \<open>A run of \<open>updateAIState\<close> calls that all pass \<open>playerVisible = true\<close>.\<close>

fun visible_updates :: "EnemyAIState \<Rightarrow> (vec3 \<times> real \<times> vec3 \<times> (nat \<Rightarrow> real)) list \<Rightarrow> EnemyAIState" where
  "visible_updates ai [] = ai"
| "visible_updates ai ((playerPos, delta, pvel, rnd) # us) =
     visible_updates (snd (updateAIState ai True playerPos delta pvel rnd)) us"

text \<open>
  The invariant of the state object: before the first entry into \<open>search\<close> the
  waypoint array is still the empty one of \<open>createAIState\<close> and the index is 0;
  afterwards the array is a result of \<open>generateSearchWaypoints\<close> and the index is
  below 4.
\<close>

definition ai_inv :: "EnemyAIState \<Rightarrow> bool" where
  "ai_inv ai =
     (if searchWaypoints ai = []
      then currentWaypointIndex ai = 0 \<and> state ai \<noteq> Search
      else (\<exists>lk v rnd. searchWaypoints ai = generateSearchWaypoints lk v rnd)
           \<and> currentWaypointIndex ai < 4)"

section \<open>Commands to the collaborators\<close>

text \<open>
  The frame callbacks talk to the physics body through \<open>api\<close>, to the sound engine and
  to React setters.  A frame is modelled as a function from its inputs (everything the
  callback reads: the streamed physics state, the settings, the results of its
  raycasts) and its refs to the list of calls it makes, in order, and the new refs.
\<close>

datatype GameState = Start | Setup | Countdown | Playing | Gameover | Won

datatype effect =
    VelocitySet vec3
  | AngularVelocitySet vec3
  | PositionSet vec3
  | ApplyTorque vec3
  | ApplyImpulse vec3 vec3
  | ApplyForce vec3 vec3
  | SetIsPaused bool
  | SetCurrentState EnemyState
  | SetEnemyAIState EnemyState
  | SetEnemyPosition vec3
  | SetGameState GameState
  | PlayAlertSound
  | PlayLostSound
  | PlayPing real
  | PlayBonkSound

section \<open>The player's motion controller (PlayerSphere)\<close>

text \<open>
  The model covers the frame callback from the hitch fix to the fall reset: every call
  on \<open>api\<close> and the refs those calls depend on.  The particle burst, the camera, the light
  and the visual mesh make no call on the body and are left out, and so is the
  \<open>smoothedCamTarget\<close> ref.  \<open>setTimeout\<close> re-arms \<open>canJump\<close> outside the frame.
  A ground hit is the pair of \<open>hit.object.uuid !== ref.current.uuid\<close> and
  \<open>hit.distance\<close>.
\<close>

record player_keys =
  key_w :: bool
  key_a :: bool
  key_s :: bool
  key_d :: bool
  key_space :: bool

record player_input =
  p_delta :: real
  p_isPaused :: bool
  p_timeSinceInput :: real
  p_refMounted :: bool
  p_gameState :: GameState
  p_keys :: player_keys
  p_velocity :: vec3
  p_angularVelocity :: vec3
  p_worldPos :: vec3
  p_groundHits :: "(bool \<times> real) list"
  p_moveSpeed :: real
  p_playerAirControl :: real
  p_jumpForce :: real

record player_refs =
  lastGoodVelocity :: vec3
  canJump :: bool
  p_isGrounded :: bool

definition MAX_DELTA :: real where
  "MAX_DELTA = 0.05"

definition hitchRecovery :: "bool \<Rightarrow> vec3 \<Rightarrow> player_refs \<Rightarrow> effect list \<times> player_refs" where
  "hitchRecovery isHitch velocity r =
     (if isHitch \<and> vx (lastGoodVelocity r) \<noteq> 0
      then ([VelocitySet (Vec3 (vx (lastGoodVelocity r)) (vy velocity) (vz (lastGoodVelocity r)))], r)
      else if \<not> isHitch
      then ([], r\<lparr>lastGoodVelocity := Vec3 (vx velocity) (vy velocity) (vz velocity)\<rparr>)
      else ([], r))"

definition keyTorque :: "player_keys \<Rightarrow> real \<Rightarrow> vec3" where
  "keyTorque k torqueAmount =
     (let t0 = Vec3 0 0 0;
          t1 = (if key_w k then Vec3 (vx t0 - torqueAmount) (vy t0) (vz t0) else t0);
          t2 = (if key_s k then Vec3 (vx t1 + torqueAmount) (vy t1) (vz t1) else t1);
          t3 = (if key_a k then Vec3 (vx t2) (vy t2) (vz t2 + torqueAmount) else t2);
          t4 = (if key_d k then Vec3 (vx t3) (vy t3) (vz t3 - torqueAmount) else t3)
      in t4)"

definition directionBoost :: "vec3 \<Rightarrow> vec3 \<Rightarrow> vec3" where
  "directionBoost torque currentAngVel =
     (if lengthSq torque > 0
      then (let angSpeed = vlength currentAngVel
            in if angSpeed > 2
               then (let alignment = dot (normalize torque) (normalize currentAngVel)
                     in if alignment < - 0.3
                        then multiplyScalar torque (mapLinear alignment (- 1) (- 0.3) 5 2)
                        else torque)
               else torque)
      else torque)"

fun groundLoop :: "(bool \<times> real) list \<Rightarrow> bool" where
  "groundLoop [] = False"
| "groundLoop ((otherObject, distance) # hits) =
     (if otherObject \<and> distance \<le> 1.2 then True else groundLoop hits)"

definition braking :: "vec3 \<Rightarrow> bool \<Rightarrow> vec3 \<Rightarrow> vec3" where
  "braking torque grounded currentAngVel =
     (if lengthSq torque = 0 \<and> grounded
      then (if vlength currentAngVel > 0.1
            then (let brakeForce = 2.0
                  in Vec3 (- vx currentAngVel * brakeForce) (vy torque)
                          (- vz currentAngVel * brakeForce))
            else torque)
      else torque)"

definition playerTorque :: "player_input \<Rightarrow> vec3" where
  "playerTorque inp =
     (let torque = directionBoost (keyTorque (p_keys inp) (p_moveSpeed inp)) (p_angularVelocity inp);
          grounded = groundLoop (p_groundHits inp);
          controlMultiplier = (if grounded then 1.0 else p_playerAirControl inp)
      in braking (multiplyScalar torque controlMultiplier) grounded (p_angularVelocity inp))"

definition playerFallReset :: "vec3 \<Rightarrow> effect list" where
  "playerFallReset pos =
     (if vy pos < - 20
      then [PositionSet (Vec3 0 5 0), VelocitySet (Vec3 0 0 0), AngularVelocitySet (Vec3 0 0 0)]
      else [])"

definition playerFrame :: "player_input \<Rightarrow> player_refs \<Rightarrow> effect list \<times> player_refs" where
  "playerFrame inp r =
     (let isHitch = p_delta inp > MAX_DELTA;
          e0 = (if \<not> p_isPaused inp \<and> p_timeSinceInput inp > 10000 then [SetIsPaused True] else [])
      in if p_isPaused inp then (e0, r)
         else if \<not> p_refMounted inp then (e0, r)
         else (let (e1, r1) = hitchRecovery isHitch (p_velocity inp) r
               in if p_gameState inp \<noteq> Playing
                  then (if p_gameState inp = Setup \<or> p_gameState inp = Countdown
                        then (e0 @ e1 @ [VelocitySet (Vec3 0 (vy (p_velocity inp)) 0),
                                         AngularVelocitySet (Vec3 0 0 0)], r1)
                        else (e0 @ e1, r1))
                  else (let grounded = groundLoop (p_groundHits inp);
                            e2 = [ApplyTorque (playerTorque inp)];
                            jump = key_space (p_keys inp) \<and> canJump r1 \<and> grounded;
                            e3 = (if jump then [ApplyImpulse (Vec3 0 (p_jumpForce inp) 0) (Vec3 0 0 0)]
                                  else []);
                            e4 = playerFallReset (p_worldPos inp)
                        in (e0 @ e1 @ e2 @ e3 @ e4,
                            r1\<lparr>p_isGrounded := grounded,
                               canJump := (if jump then False else canJump r1)\<rparr>))))"

section \<open>The enemy's motion controller (EnemySphereV2)\<close>

text \<open>
  The raycasts are collaborators: the frame's input holds what they return, the
  distances of the line-of-sight hits, the avoidance hits (distance and whether the hit
  has a face) and the ground hits, each sorted by distance as three.js returns them.
  The obstacle cache itself is left out (only its refresh time is kept), and so are
  the three debug refs no command depends on.  \<open>applyAxisAngle\<close> about the up axis is
  written out as the rotation it is.
\<close>

record enemy_input =
  e_delta :: real
  e_currentTime :: real
  e_isPaused :: bool
  e_gameState :: GameState
  e_playerPos :: "vec3 option"
  e_refMounted :: bool
  e_position :: vec3
  e_velocity :: vec3
  e_enemySpeed :: real
  e_enemyAirControl :: real
  e_aiTickRate :: real
  e_currentState :: EnemyState
  e_losHits :: "real list"
  e_avoidHits :: "(real \<times> bool) list"
  e_groundHits :: "real list"
  e_rnd :: "nat \<Rightarrow> real"

record enemy_refs =
  aiState :: EnemyAIState
  playerPrevPos :: vec3
  playerVel :: vec3
  cachedTarget :: vec3
  lastAvoidanceForce :: vec3
  lastCanSee :: bool
  lastCacheUpdate :: real
  lastAIUpdate :: real
  lastUIUpdate :: real
  nextPingTime :: real
  e_isGrounded :: bool

definition CACHE_UPDATE_INTERVAL :: real where
  "CACHE_UPDATE_INTERVAL = 2.0"

definition UI_UPDATE_INTERVAL :: real where
  "UI_UPDATE_INTERVAL = 0.25"

definition MAX_VELOCITY :: real where
  "MAX_VELOCITY = 25"

definition updateObstacleCache :: "real \<Rightarrow> enemy_refs \<Rightarrow> enemy_refs" where
  "updateObstacleCache currentTime r =
     (if currentTime - lastCacheUpdate r > CACHE_UPDATE_INTERVAL
      then r\<lparr>lastCacheUpdate := currentTime\<rparr> else r)"

definition trackPlayerVelocity :: "real \<Rightarrow> vec3 \<Rightarrow> enemy_refs \<Rightarrow> enemy_refs" where
  "trackPlayerVelocity clampedDelta currentPlayerPos r =
     (if clampedDelta > 0
      then r\<lparr>playerVel :=
               lerp (playerVel r)
                    (divideScalar (vsub currentPlayerPos (playerPrevPos r)) clampedDelta) 0.1\<rparr>
      else r)\<lparr>playerPrevPos := currentPlayerPos\<rparr>"

definition velocityCap :: "vec3 \<Rightarrow> effect list" where
  "velocityCap velocity =
     (if lengthSq velocity > MAX_VELOCITY * MAX_VELOCITY
      then [VelocitySet (Vec3 (vx velocity * 0.95) (vy velocity) (vz velocity * 0.95))]
      else [])"

definition applyAxisAngleUp :: "vec3 \<Rightarrow> real \<Rightarrow> vec3" where
  "applyAxisAngleUp v angle =
     Vec3 (vx v * cos angle + vz v * sin angle) (vy v) (vz v * cos angle - vx v * sin angle)"

definition aiTick ::
  "enemy_input \<Rightarrow> vec3 \<Rightarrow> enemy_refs \<Rightarrow> js_error + (effect list \<times> enemy_refs)" where
  "aiTick inp currentPlayerPos r0 =
     (let AI_UPDATE_INTERVAL = 1 / e_aiTickRate inp
      in if e_currentTime inp - lastAIUpdate r0 > AI_UPDATE_INTERVAL
         then (let r = r0\<lparr>lastAIUpdate := e_currentTime inp\<rparr>;
                   toPlayer = vsub currentPlayerPos (e_position inp);
                   distToPlayer = vlength toPlayer;
                   isOccluded = (case e_losHits inp of [] \<Rightarrow> False | h # hs \<Rightarrow> h < distToPlayer);
                   canSee = (distToPlayer < 40 \<and> \<not> isOccluded);
                   prevState = state (aiState r);
                   (newState, ai1) =
                      updateAIState (aiState r) canSee currentPlayerPos AI_UPDATE_INTERVAL
                        (playerVel r) (e_rnd inp);
                   e1 = (if newState \<noteq> e_currentState inp
                         then [SetCurrentState newState, SetEnemyAIState newState]
                              @ (if prevState = Idle \<and> newState = Alert then [PlayAlertSound] else [])
                              @ (if prevState = Chase \<and> newState = Search then [PlayLostSound] else [])
                         else [])
               in case getMovementTarget ai1 (e_position inp) currentPlayerPos (playerVel r) of
                    Inl err \<Rightarrow> Inl err
                  | Inr (target, ai2) \<Rightarrow>
                      (let desiredDir = normalize (vsub target (e_position inp));
                           currentVelDir = normalize (e_velocity inp);
                           checkDir = (if vlength (e_velocity inp) > 1 then currentVelDir else desiredDir);
                           avoidance =
                             (case e_avoidHits inp of
                                [] \<Rightarrow> Vec3 0 0 0
                              | (d, hasFace) # hs \<Rightarrow>
                                  if hasFace
                                  then vadd (Vec3 0 0 0)
                                         (multiplyScalar (applyAxisAngleUp checkDir (pi / 3)) 20)
                                  else Vec3 0 0 0);
                           ui = (e_currentTime inp - lastUIUpdate r > UI_UPDATE_INTERVAL);
                           e2 = (if ui then [SetEnemyPosition (e_position inp)] else [])
                       in Inr (e1 @ e2,
                               r\<lparr>aiState := ai2, lastCanSee := canSee, cachedTarget := target,
                                 lastAvoidanceForce := avoidance,
                                 lastUIUpdate := (if ui then e_currentTime inp else lastUIUpdate r)\<rparr>)))
         else Inr ([], r0))"

definition enemyForce :: "enemy_input \<Rightarrow> vec3 \<Rightarrow> bool \<Rightarrow> enemy_refs \<Rightarrow> effect list" where
  "enemyForce inp currentPlayerPos grounded r =
     (let controlMultiplier = (if grounded then 1.0 else e_enemyAirControl inp);
          speedMultiplier = getSpeedMultiplier (state (aiState r));
          desiredDir =
            (if state (aiState r) = Chase \<or> state (aiState r) = Alert
             then normalize (vsub currentPlayerPos (e_position inp))
             else normalize (vsub (cachedTarget r) (e_position inp)));
          velMag = vlength (e_velocity inp);
          velDir = normalize (e_velocity inp);
          alignment = dot velDir desiredDir;
          f0 = vadd desiredDir (lastAvoidanceForce r);
          f1 = (if alignment < 0.3 \<and> velMag > 2
                then (let brakingStrength = (1 - alignment) * velMag * 0.5
                      in Vec3 (vx f0 - vx velDir * brakingStrength) (vy f0)
                              (vz f0 - vz velDir * brakingStrength))
                else f0);
          speed = e_enemySpeed inp * speedMultiplier * 15 * controlMultiplier
      in [ApplyForce (Vec3 (vx f1 * speed) 0 (vz f1 * speed)) (Vec3 0 0 0)])"

definition enemySonar :: "enemy_input \<Rightarrow> real \<Rightarrow> enemy_refs \<Rightarrow> effect list \<times> enemy_refs" where
  "enemySonar inp d r =
     (if e_currentTime inp > nextPingTime r
      then (let interval = clamp (mapLinear d 5 50 0.2 1.5) 0.2 1.5
            in ([PlayPing (800 + (50 - d) * 10)],
                r\<lparr>nextPingTime := e_currentTime inp + interval\<rparr>))
      else ([], r))"

definition enemyFallReset :: "vec3 \<Rightarrow> effect list" where
  "enemyFallReset pos =
     (if vy pos < - 20
      then [PositionSet (Vec3 10 20 10), VelocitySet (Vec3 0 0 0)]
      else [])"

definition enemyFrame ::
  "enemy_input \<Rightarrow> enemy_refs \<Rightarrow> js_error + (effect list \<times> enemy_refs)" where
  "enemyFrame inp r =
     (let clampedDelta = min (e_delta inp) 0.05
      in if e_isPaused inp then Inr ([], r)
         else if e_gameState inp \<noteq> Playing
         then (if e_gameState inp = Setup \<or> e_gameState inp = Countdown
               then Inr ([VelocitySet (Vec3 0 (vy (e_velocity inp)) 0),
                          AngularVelocitySet (Vec3 0 0 0)], r)
               else Inr ([], r))
         else case e_playerPos inp of
                None \<Rightarrow> Inr ([], r)
              | Some currentPlayerPos \<Rightarrow>
                  if \<not> e_refMounted inp then Inr ([], r)
                  else (let r1 = updateObstacleCache (e_currentTime inp) r;
                            r2 = trackPlayerVelocity clampedDelta currentPlayerPos r1;
                            e1 = velocityCap (e_velocity inp)
                        in case aiTick inp currentPlayerPos r2 of
                             Inl err \<Rightarrow> Inl err
                           | Inr (e2, r3) \<Rightarrow>
                               (let grounded = (case e_groundHits inp of
                                                  [] \<Rightarrow> False | d # ds \<Rightarrow> d \<le> 0.8);
                                    e3 = enemyForce inp currentPlayerPos grounded r3;
                                    d = distanceTo (e_position inp) currentPlayerPos;
                                    (e4, r4) = enemySonar inp d r3;
                                    e5 = enemyFallReset (e_position inp);
                                    e6 = (if d < 1.1
                                          then [PlayBonkSound, SetGameState Gameover] else [])
                                in Inr (e1 @ e2 @ e3 @ e4 @ e5 @ e6,
                                        r4\<lparr>e_isGrounded := grounded\<rparr>))))"

section \<open>The sound engine (SoundManager)\<close>

text \<open>
  The Web Audio graph is a collaborator: a method of the engine is modelled by the
  calls it makes on the graph, in order, and by the new fields of the engine.  The
  fields \<open>ctx\<close>, \<open>masterGain\<close> and \<open>sonarGain\<close> are nullable handles, modelled by whether
  they are set; \<open>sonarOsc\<close> is modelled by the oscillator's \<open>type\<close>.  What the engine
  reads from the context (\<open>currentTime\<close>, \<open>state === 'suspended'\<close>) is an input.
  A guard \<open>if (!a || !b) return\<close> is written \<open>if \<not> (a \<and> b) then ([], sm)\<close>.
\<close>

datatype OscillatorType = Sine | Square | Triangle | Sawtooth

datatype audio_op =
    MasterGainValue real
  | MasterGainCancel real
  | MasterGainSetValueAt real real
  | MasterGainTargetAt real real real
  | CtxResume
  | BeepVoice real real OscillatorType real
  | TimeoutBeep nat real real OscillatorType real
  | GoChord real
  | BonkVoice real
  | SonarCreate
  | SonarOscStop
  | SonarOscDisconnect
  | SonarGainDisconnect
  | SonarOscType OscillatorType
  | SonarFreqTargetAt real real real
  | SonarGainCancel real
  | SonarGainTargetAt real real real
  | ConsoleWarn

record SoundManager =
  ctx :: bool
  masterGain :: bool
  enabled :: bool
  sonarOsc :: "OscillatorType option"
  sonarGain :: bool
  nextBeepTime :: real

record audio_env =
  currentTime :: real
  suspended :: bool

text \<open>
  Where the browser's audio backend can fail inside the \<open>try\<close> block of \<open>init\<close>: at the
  constructor (no \<open>AudioContext\<close> at all), at \<open>createGain\<close>, or at \<open>connect\<close>.
\<close>

datatype audio_backend = Available | ConstructorThrows | CreateGainThrows | ConnectThrows

definition newSoundManager :: SoundManager where
  "newSoundManager =
     \<lparr>ctx = False, masterGain = False, enabled = True, sonarOsc = None,
      sonarGain = False, nextBeepTime = 0\<rparr>"

definition init :: "audio_backend \<Rightarrow> SoundManager \<Rightarrow> audio_op list \<times> SoundManager" where
  "init backend sm =
     (if ctx sm then ([], sm)
      else case backend of
             Available \<Rightarrow>
               ([MasterGainValue 0.5], sm\<lparr>ctx := True, masterGain := True, enabled := True\<rparr>)
           | ConstructorThrows \<Rightarrow> ([ConsoleWarn], sm\<lparr>enabled := False\<rparr>)
           | CreateGainThrows \<Rightarrow> ([ConsoleWarn], sm\<lparr>ctx := True, enabled := False\<rparr>)
           | ConnectThrows \<Rightarrow>
               ([MasterGainValue 0.5, ConsoleWarn],
                sm\<lparr>ctx := True, masterGain := True, enabled := False\<rparr>))"

definition constructSoundManager :: "audio_backend \<Rightarrow> audio_op list \<times> SoundManager" where
  "constructSoundManager backend = init backend newSoundManager"

definition resume :: "audio_env \<Rightarrow> SoundManager \<Rightarrow> audio_op list \<times> SoundManager" where
  "resume env sm = (if ctx sm \<and> suspended env then ([CtxResume], sm) else ([], sm))"

definition setEnabled :: "audio_env \<Rightarrow> bool \<Rightarrow> SoundManager \<Rightarrow> audio_op list \<times> SoundManager" where
  "setEnabled env val sm =
     (let sm1 = sm\<lparr>enabled := val\<rparr>;
          o1 = (if ctx sm1 \<and> masterGain sm1
                then (if \<not> val
                      then [MasterGainCancel (currentTime env), MasterGainSetValueAt 0 (currentTime env)]
                      else [MasterGainCancel (currentTime env), MasterGainSetValueAt 0.5 (currentTime env)])
                else []);
          o2 = (if val \<and> ctx sm1 \<and> suspended env then [CtxResume] else [])
      in (o1 @ o2, sm1))"

definition setMasterVolume :: "audio_env \<Rightarrow> real \<Rightarrow> SoundManager \<Rightarrow> audio_op list \<times> SoundManager" where
  "setMasterVolume env val sm =
     (if \<not> (ctx sm \<and> masterGain sm) then ([], sm)
      else ([MasterGainCancel (currentTime env), MasterGainTargetAt val (currentTime env) 0.1], sm))"

definition playBeep ::
  "audio_env \<Rightarrow> real \<Rightarrow> real \<Rightarrow> OscillatorType \<Rightarrow> real \<Rightarrow> SoundManager
     \<Rightarrow> audio_op list \<times> SoundManager" where
  "playBeep env frequency duration type volume sm =
     (if \<not> (enabled sm \<and> ctx sm \<and> masterGain sm) then ([], sm)
      else (fst (resume env sm) @ [BeepVoice frequency duration type volume], sm))"

definition playCountdownBeep :: "audio_env \<Rightarrow> real \<Rightarrow> SoundManager \<Rightarrow> audio_op list \<times> SoundManager" where
  "playCountdownBeep env count sm =
     (if count > 0 then playBeep env 800 0.1 Sine 0.5 sm else ([], sm))"

definition playGoSignal :: "audio_env \<Rightarrow> SoundManager \<Rightarrow> audio_op list \<times> SoundManager" where
  "playGoSignal env sm =
     (if \<not> (enabled sm \<and> ctx sm \<and> masterGain sm) then ([], sm)
      else ([GoChord (currentTime env)], sm))"

definition playTagSound :: "audio_env \<Rightarrow> SoundManager \<Rightarrow> audio_op list \<times> SoundManager" where
  "playTagSound env sm = playBeep env 150 0.4 Sawtooth 0.6 sm"

definition playAlertSound :: "audio_env \<Rightarrow> SoundManager \<Rightarrow> audio_op list \<times> SoundManager" where
  "playAlertSound env sm =
     (fst (playBeep env 300 0.1 Square 0.4 sm) @ [TimeoutBeep 100 450 0.2 Square 0.4], sm)"

definition playLostSound :: "audio_env \<Rightarrow> SoundManager \<Rightarrow> audio_op list \<times> SoundManager" where
  "playLostSound env sm =
     (fst (playBeep env 400 0.3 Sine 0.3 sm) @ [TimeoutBeep 200 300 0.4 Sine 0.2], sm)"

definition playBonkSound :: "audio_env \<Rightarrow> SoundManager \<Rightarrow> audio_op list \<times> SoundManager" where
  "playBonkSound env sm =
     (if \<not> (enabled sm \<and> ctx sm \<and> masterGain sm) then ([], sm)
      else ([BonkVoice (currentTime env)], sm))"

definition playPing :: "audio_env \<Rightarrow> real \<Rightarrow> SoundManager \<Rightarrow> audio_op list \<times> SoundManager" where
  "playPing env frequency sm =
     (if \<not> (enabled sm \<and> ctx sm) then ([], sm)
      else playBeep env frequency 0.15 Sine 0.3 sm)"

definition startSonar :: "audio_env \<Rightarrow> SoundManager \<Rightarrow> audio_op list \<times> SoundManager" where
  "startSonar env sm =
     (if \<not> (enabled sm \<and> ctx sm \<and> masterGain sm) then ([], sm)
      else if sonarOsc sm \<noteq> None then ([], sm)
      else ([SonarCreate],
            sm\<lparr>sonarOsc := Some Sine, sonarGain := True, nextBeepTime := currentTime env\<rparr>))"

definition stopSonar :: "SoundManager \<Rightarrow> audio_op list \<times> SoundManager" where
  "stopSonar sm =
     (let o1 = (if sonarOsc sm \<noteq> None then [SonarOscStop, SonarOscDisconnect] else []);
          o2 = (if sonarGain sm then [SonarGainDisconnect] else [])
      in (o1 @ o2, sm\<lparr>sonarOsc := None, sonarGain := False\<rparr>))"

text \<open>
  The settings object that \<open>GameLogic\<close> hands to \<open>updateSonar\<close> is the whole settings
  context; the record keeps the audio fields, \<open>audioSolidDistance\<close> among them.
\<close>

record Settings =
  masterVolume :: real
  audioPitchEnabled :: bool
  audioRateEnabled :: bool
  audioClosingVolume :: real
  audioOpeningVolume :: real
  audioPingVolume :: real
  audioToneVolume :: real
  audioPingStyle :: OscillatorType
  audioToneStyle :: OscillatorType
  audioClosingMaxDist :: real
  audioOpeningMaxDist :: real
  audioClosingPitch :: real
  audioOpeningPitch :: real
  audioSolidDistance :: real

record debug_mode =
  closingEnabled :: bool
  openingEnabled :: bool

definition SOLID_THRESHOLD :: real where
  "SOLID_THRESHOLD = 10"

definition solidPitch :: "real \<Rightarrow> real" where
  "solidPitch distance = 1500 + ((1 - (distance / SOLID_THRESHOLD)) * 500)"

definition solidTone ::
  "real \<Rightarrow> real \<Rightarrow> real \<Rightarrow> Settings \<Rightarrow> OscillatorType \<Rightarrow> SoundManager
     \<Rightarrow> audio_op list \<times> SoundManager" where
  "solidTone now distance globalMult settings osc sm =
     (let o1 = (if osc \<noteq> audioToneStyle settings then [SonarOscType (audioToneStyle settings)] else []);
          finalVol = audioToneVolume settings * globalMult
      in (o1 @ [SonarFreqTargetAt (solidPitch distance) now 0.05,
                SonarGainCancel now,
                SonarGainTargetAt finalVol now 0.1],
          sm\<lparr>sonarOsc := Some (audioToneStyle settings), nextBeepTime := now + 0.1\<rparr>))"

definition standardTone ::
  "real \<Rightarrow> real \<Rightarrow> real \<Rightarrow> real \<Rightarrow> real \<Rightarrow> Settings \<Rightarrow> OscillatorType \<Rightarrow> SoundManager
     \<Rightarrow> audio_op list \<times> SoundManager" where
  "standardTone now distance maxDist basePitch globalMult settings osc sm =
     (let o1 = (if osc \<noteq> audioPingStyle settings then [SonarOscType (audioPingStyle settings)] else []);
          pitch = (if audioPitchEnabled settings
                   then (let distFactor = max 0 (1 - (distance / maxDist))
                         in basePitch + (distFactor ^ 2 * 1200))
                   else basePitch);
          distVol = (max 0 (1 - (distance / maxDist))) ^ 2;
          finalVol = distVol * audioToneVolume settings * globalMult
      in (o1 @ [SonarFreqTargetAt pitch now 0.1, SonarGainTargetAt finalVol now 0.1],
          sm\<lparr>sonarOsc := Some (audioPingStyle settings)\<rparr>))"

definition updateSonar ::
  "audio_env \<Rightarrow> real \<Rightarrow> real \<Rightarrow> Settings \<Rightarrow> debug_mode option \<Rightarrow> SoundManager
     \<Rightarrow> audio_op list \<times> SoundManager" where
  "updateSonar env distance closingSpeed settings debugMode sm =
     (case sonarOsc sm of
        None \<Rightarrow> ([], sm)
      | Some osc \<Rightarrow>
          if \<not> (enabled sm \<and> ctx sm \<and> sonarGain sm) then ([], sm)
          else (let now = currentTime env;
                    isClosing = closingSpeed > 0;
                    maxDist = (if isClosing then audioClosingMaxDist settings
                               else audioOpeningMaxDist settings);
                    volumeMult =
                      (if isClosing
                       then (case debugMode of
                               None \<Rightarrow> audioClosingVolume settings
                             | Some dm \<Rightarrow> if \<not> closingEnabled dm then 0
                                          else audioClosingVolume settings)
                       else (case debugMode of
                               None \<Rightarrow> audioOpeningVolume settings
                             | Some dm \<Rightarrow> if \<not> openingEnabled dm then 0
                                          else audioOpeningVolume settings));
                    basePitch = (if isClosing then audioClosingPitch settings
                                 else audioOpeningPitch settings);
                    globalMult = volumeMult
                in if globalMult \<le> 0.001
                   then ([SonarGainTargetAt 0 now 0.1], sm)
                   else if distance < SOLID_THRESHOLD
                   then solidTone now distance globalMult settings osc sm
                   else standardTone now distance maxDist basePitch globalMult settings osc sm))"

text \<open>
  The members of the class, as its source lists them.  A call of a method that is not
  among them calls \<open>undefined\<close>, and JavaScript throws a \<open>TypeError\<close>.
\<close>

definition SoundManager_members :: "string list" where
  "SoundManager_members =
     [''ctx'', ''masterGain'', ''enabled'', ''sonarOsc'', ''sonarGain'', ''nextBeepTime'',
      ''constructor'', ''init'', ''setEnabled'', ''setMasterVolume'', ''resume'', ''playBeep'',
      ''playCountdownBeep'', ''playGoSignal'', ''playTagSound'', ''playAlertSound'',
      ''playLostSound'', ''playBonkSound'', ''playPing'', ''startSonar'', ''stopSonar'',
      ''updateSonar'']"

definition callable :: "string \<Rightarrow> bool" where
  "callable name = (name \<in> set SoundManager_members)"

section \<open>The per-frame audio update (GameLogic)\<close>

text \<open>
  The frame callback of \<open>GameLogic\<close>.  Its result holds the calls made on the audio
  graph, the value passed to \<open>setDebugVelocity\<close> if it was called, the engine and the
  two refs as the callback leaves them, and the error it throws, if any: what was done
  before a \<open>throw\<close> stays done.  (The division by \<open>delta\<close> is the real one; a zero
  \<open>delta\<close> is outside what the claims are about.)
\<close>

record gl_input =
  g_delta :: real
  g_gameState :: GameState
  g_playerPos :: "vec3 option"
  g_enemyPos :: "vec3 option"
  g_settings :: Settings
  g_env :: audio_env

record gl_refs =
  lastDistRef :: real
  throttleRef :: real

record gl_result =
  audio :: "audio_op list"
  debugVelocity :: "real option"
  sound :: SoundManager
  refs :: gl_refs
  thrown :: "js_error option"

definition gameLogicFrame :: "gl_input \<Rightarrow> SoundManager \<Rightarrow> gl_refs \<Rightarrow> gl_result" where
  "gameLogicFrame inp sm r =
     (case (g_playerPos inp, g_enemyPos inp) of
        (Some playerPos, Some enemyPos) \<Rightarrow>
          if g_gameState inp \<noteq> Playing
          then \<lparr>audio = [], debugVelocity = None, sound = sm, refs = r, thrown = None\<rparr>
          else (let d = distanceTo playerPos enemyPos;
                    closingSpeed = - (d - lastDistRef r) / g_delta inp;
                    (ops, sm1) = updateSonar (g_env inp) d closingSpeed (g_settings inp) None sm
                in if \<not> callable ''updateListener''
                   then \<lparr>audio = ops, debugVelocity = None, sound = sm1, refs = r,
                         thrown = Some TypeError\<rparr>
                   else (let t = throttleRef r + g_delta inp
                         in \<lparr>audio = ops,
                             debugVelocity = (if t > 0.2 then Some closingSpeed else None),
                             sound = sm1,
                             refs = \<lparr>lastDistRef = d, throttleRef = (if t > 0.2 then 0 else t)\<rparr>,
                             thrown = None\<rparr>))
      | _ \<Rightarrow> \<lparr>audio = [], debugVelocity = None, sound = sm, refs = r, thrown = None\<rparr>)"

section \<open>Projections and concrete frames\<close>

text \<open>The torques a frame applies, in order.\<close>

fun torques :: "effect list \<Rightarrow> vec3 list" where
  "torques [] = []"
| "torques (ApplyTorque t # es) = t # torques es"
| "torques (e # es) = torques es"

text \<open>
  The refs of a freshly mounted player, a frame of 16 ms in which the ball rolls
  straight ahead (along \<open>-z\<close>, with \<open>W\<close> held), and the frame after it, which took
  100 ms and in which the physics engine reports an erratic velocity.
\<close>

definition initial_player_refs :: player_refs where
  "initial_player_refs = \<lparr>lastGoodVelocity = Vec3 0 0 0, canJump = True, p_isGrounded = True\<rparr>"

definition straight_roll_frame :: player_input where
  "straight_roll_frame =
     \<lparr>p_delta = 0.016, p_isPaused = False, p_timeSinceInput = 0, p_refMounted = True,
      p_gameState = Playing,
      p_keys = \<lparr>key_w = True, key_a = False, key_s = False, key_d = False, key_space = False\<rparr>,
      p_velocity = Vec3 0 0 (- 3), p_angularVelocity = Vec3 (- 6) 0 0,
      p_worldPos = Vec3 0 1 0, p_groundHits = [(True, 0.5)],
      p_moveSpeed = 8, p_playerAirControl = 0.1, p_jumpForce = 5\<rparr>"

definition hitch_frame :: player_input where
  "hitch_frame = straight_roll_frame\<lparr>p_delta := 0.1, p_velocity := Vec3 0.4 (- 0.2) 0.7\<rparr>"

text \<open>A grounded frame with no key held in which the ball only spins about the vertical axis.\<close>

definition yaw_spin_frame :: player_input where
  "yaw_spin_frame =
     \<lparr>p_delta = 0.016, p_isPaused = False, p_timeSinceInput = 0, p_refMounted = True,
      p_gameState = Playing,
      p_keys = \<lparr>key_w = False, key_a = False, key_s = False, key_d = False, key_space = False\<rparr>,
      p_velocity = Vec3 0 0 0, p_angularVelocity = Vec3 0 1 0,
      p_worldPos = Vec3 0 1 0, p_groundHits = [(True, 0.5)],
      p_moveSpeed = 8, p_playerAirControl = 0.1, p_jumpForce = 5\<rparr>"

text \<open>
  The refs of a freshly mounted enemy, and a frame between two AI ticks in which the
  enemy, in chase, has fallen to \<open>y = -21\<close>.
\<close>

definition initial_enemy_refs :: enemy_refs where
  "initial_enemy_refs =
     \<lparr>aiState = createAIState, playerPrevPos = Vec3 0 0 0, playerVel = Vec3 0 0 0,
      cachedTarget = Vec3 0 0 0, lastAvoidanceForce = Vec3 0 0 0, lastCanSee = False,
      lastCacheUpdate = 0, lastAIUpdate = 0, lastUIUpdate = 0, nextPingTime = 0,
      e_isGrounded = True\<rparr>"

definition enemy_fall_frame :: enemy_input where
  "enemy_fall_frame =
     \<lparr>e_delta = 0.016, e_currentTime = 10, e_isPaused = False, e_gameState = Playing,
      e_playerPos = Some (Vec3 0 5 0), e_refMounted = True,
      e_position = Vec3 0 (- 21) 0, e_velocity = Vec3 0 (- 9) 0,
      e_enemySpeed = 2, e_enemyAirControl = 0, e_aiTickRate = 10, e_currentState = Chase,
      e_losHits = [], e_avoidHits = [], e_groundHits = [], e_rnd = (\<lambda>i. 0)\<rparr>"

definition enemy_fall_refs :: enemy_refs where
  "enemy_fall_refs =
     initial_enemy_refs
       \<lparr>aiState := createAIState\<lparr>state := Chase, lastKnownPlayerPos := Vec3 0 5 0\<rparr>,
        playerPrevPos := Vec3 0 5 0, cachedTarget := Vec3 0 5 0,
        lastCacheUpdate := 9, lastAIUpdate := 10, lastUIUpdate := 10, nextPingTime := 11\<rparr>"

text \<open>
  The default audio settings of \<open>DEFAULT_SETTINGS\<close>, an engine whose sonar has been
  started, and a frame of \<open>GameLogic\<close> while the game is playing.
\<close>

definition default_settings :: Settings where
  "default_settings =
     \<lparr>masterVolume = 0.5, audioPitchEnabled = True, audioRateEnabled = True,
      audioClosingVolume = 1, audioOpeningVolume = 0.3, audioPingVolume = 0.6,
      audioToneVolume = 0.5, audioPingStyle = Sine, audioToneStyle = Triangle,
      audioClosingMaxDist = 150, audioOpeningMaxDist = 150,
      audioClosingPitch = 300, audioOpeningPitch = 200, audioSolidDistance = 10\<rparr>"

definition quiet_env :: audio_env where
  "quiet_env = \<lparr>currentTime = 0, suspended = False\<rparr>"

definition running_sonar :: SoundManager where
  "running_sonar = snd (startSonar quiet_env (snd (constructSoundManager Available)))"

definition playing_frame :: "SoundManager \<Rightarrow> gl_result" where
  "playing_frame sm =
     gameLogicFrame
       \<lparr>g_delta = 0.016, g_gameState = Playing, g_playerPos = Some (Vec3 0 5 0),
        g_enemyPos = Some (Vec3 0 20 (- 15)), g_settings = default_settings,
        g_env = quiet_env\<rparr>
       sm \<lparr>lastDistRef = 0, throttleRef = 0\<rparr>"

section \<open>The state machine: transitions out of alert and search\<close>

lemma length_generateSearchWaypoints:
  "length (generateSearchWaypoints lk v rnd) = 4"
  by (simp add: generateSearchWaypoints_def Let_def)

lemma generateSearchWaypoints_nonempty:
  "generateSearchWaypoints lk v rnd \<noteq> []"
  by (simp add: generateSearchWaypoints_def Let_def)

text \<open>
  Entering alert resets the timer, and while the player stays visible and the timer
  stays below the dwell time the timer is the sum of the deltas of the ticks since.
\<close>

lemma enter_alert_resets_timer:
  "state ai = Idle \<Longrightarrow>
   updateAIState ai True playerPos delta pvel rnd
     = (Alert, ai\<lparr>state := Alert, stateTimer := 0, lastKnownPlayerPos := playerPos\<rparr>)"
  by (simp add: updateAIState_def updateAI_def Let_def)

lemma alert_timer_accumulates:
  assumes "state ai = Alert"
    and "\<forall>u \<in> set us. 0 \<le> fst (snd u)"
    and "stateTimer ai + sum_list (map (\<lambda>u. fst (snd u)) us) < 1 / 2"
  shows "state (visible_updates ai us) = Alert
       \<and> stateTimer (visible_updates ai us)
           = stateTimer ai + sum_list (map (\<lambda>u. fst (snd u)) us)"
  using assms
proof (induction us arbitrary: ai)
  case Nil
  then show ?case by simp
next
  case (Cons u us)
  obtain p d v r where u: "u = (p, d, v, r)" by (cases u) auto
  let ?ai' = "snd (updateAIState ai True p d v r)"
  have nn: "0 \<le> sum_list (map (\<lambda>u. fst (snd u)) us)"
    using Cons.prems(2) by (intro sum_list_nonneg) auto
  have lt: "stateTimer ai + d < 1 / 2"
    using Cons.prems(3) nn by (simp add: u)
  have st: "state ?ai' = Alert" and tm: "stateTimer ?ai' = stateTimer ai + d"
    using Cons.prems(1) lt
    by (simp_all add: updateAIState_def updateAI_def Let_def ALERT_DURATION_def)
  have "state (visible_updates ?ai' us) = Alert
       \<and> stateTimer (visible_updates ?ai' us)
           = stateTimer ?ai' + sum_list (map (\<lambda>u. fst (snd u)) us)"
    using Cons.prems(2,3) by (intro Cons.IH st) (simp_all add: tm u add.assoc)
  then show ?case by (simp add: u tm add.assoc)
qed

text \<open>
  Claim C1.  In the alert state, one call of \<open>updateAIState\<close> first adds \<open>delta\<close> to the
  timer.  If the player is visible and the timer has then reached 0.5, the state becomes
  chase and the timer is reset to 0; if the player is visible and the timer is still
  below 0.5, the state stays alert and the timer keeps the sum (so the timer is the sum
  of the deltas since alert was entered); if the player is not visible, the state
  becomes search in that same call, the timer is reset and a fresh waypoint list is
  generated from the last-known position held on entry and the player's velocity.
\<close>

theorem alert_update:
  assumes "state ai = Alert"
  shows "(playerVisible \<and> stateTimer ai + delta \<ge> 1 / 2 \<longrightarrow>
            updateAIState ai playerVisible playerPos delta pvel rnd
              = (Chase, ai\<lparr>state := Chase, stateTimer := 0, lastKnownPlayerPos := playerPos\<rparr>))
       \<and> (playerVisible \<and> stateTimer ai + delta < 1 / 2 \<longrightarrow>
            updateAIState ai playerVisible playerPos delta pvel rnd
              = (Alert, ai\<lparr>stateTimer := stateTimer ai + delta, lastKnownPlayerPos := playerPos\<rparr>))
       \<and> (\<not> playerVisible \<longrightarrow>
            updateAIState ai playerVisible playerPos delta pvel rnd
              = (Search, ai\<lparr>state := Search, stateTimer := 0,
                     searchWaypoints := generateSearchWaypoints (lastKnownPlayerPos ai) pvel rnd,
                     lastKnownPlayerPos := playerPos\<rparr>))"
  using assms by (simp add: updateAIState_def updateAI_def Let_def ALERT_DURATION_def)

theorem alert_update_witness:
  "fst (updateAIState (createAIState\<lparr>state := Alert, stateTimer := 2 / 5\<rparr>)
          True (Vec3 1 0 2) (1 / 10) vzero (\<lambda>i. 0)) = Chase
   \<and> stateTimer (snd (updateAIState (createAIState\<lparr>state := Alert, stateTimer := 2 / 5\<rparr>)
          True (Vec3 1 0 2) (1 / 10) vzero (\<lambda>i. 0))) = 0
   \<and> fst (updateAIState (createAIState\<lparr>state := Alert, stateTimer := 1 / 5\<rparr>)
          True (Vec3 1 0 2) (1 / 10) vzero (\<lambda>i. 0)) = Alert
   \<and> fst (updateAIState (createAIState\<lparr>state := Alert, stateTimer := 1 / 5\<rparr>)
          False (Vec3 1 0 2) (1 / 10) vzero (\<lambda>i. 0)) = Search
   \<and> length (searchWaypoints (snd (updateAIState (createAIState\<lparr>state := Alert, stateTimer := 1 / 5\<rparr>)
          False (Vec3 1 0 2) (1 / 10) vzero (\<lambda>i. 0)))) = 4"
proof -
  let ?a = "createAIState\<lparr>state := Alert, stateTimer := 2 / 5\<rparr>"
  let ?b = "createAIState\<lparr>state := Alert, stateTimer := 1 / 5\<rparr>"
  have a: "state ?a = Alert" and b: "state ?b = Alert" by simp_all
  show ?thesis
    using alert_update [OF a, of True "1 / 10" "Vec3 1 0 2" vzero "\<lambda>i. 0"]
      alert_update [OF b, of True "1 / 10" "Vec3 1 0 2" vzero "\<lambda>i. 0"]
      alert_update [OF b, of False "1 / 10" "Vec3 1 0 2" vzero "\<lambda>i. 0"]
    by (simp add: length_generateSearchWaypoints)
qed

lemma blind_step_search:
  "state ai = Search \<Longrightarrow> state (snd (updateAIState ai False p d v r)) = Search"
  by (simp add: updateAIState_def updateAI_def Let_def)

lemma blind_updates_search:
  "state ai = Search \<Longrightarrow> state (blind_updates ai us) = Search"
proof (induction us arbitrary: ai)
  case Nil
  then show ?case by simp
next
  case (Cons u us)
  obtain p d v r where u: "u = (p, d, v, r)" by (cases u) auto
  show ?case unfolding u using Cons.prems
    by (simp add: Cons.IH blind_step_search)
qed

text \<open>
  Claim C2.  Start in the search state and make any number of \<open>updateAIState\<close> calls
  that all pass \<open>playerVisible = false\<close>.  The state is search after every one of them,
  so it is never idle; and whenever the next such call brings the timer to 5 seconds or
  more, that call leaves the state in search, resets the timer to 0, installs a
  regenerated waypoint list of length 4 and resets the waypoint index to 0.
\<close>

theorem search_never_idle:
  assumes "state ai = Search"
  shows "state (blind_updates ai us) = Search
       \<and> state (blind_updates ai us) \<noteq> Idle
       \<and> (stateTimer (blind_updates ai us) + d \<ge> 5 \<longrightarrow>
            (let s' = snd (updateAIState (blind_updates ai us) False p d v r)
             in state s' = Search \<and> stateTimer s' = 0
                \<and> searchWaypoints s'
                    = generateSearchWaypoints (lastKnownPlayerPos (blind_updates ai us))
                        (Vec3 (r 0 - 0.5) 0 (r 1 - 0.5)) (\<lambda>i. r (i + 2))
                \<and> length (searchWaypoints s') = 4 \<and> currentWaypointIndex s' = 0))"
proof -
  have s: "state (blind_updates ai us) = Search"
    using assms by (rule blind_updates_search)
  then show ?thesis
    by (simp add: updateAIState_def updateAI_def Let_def SEARCH_DURATION_def
        length_generateSearchWaypoints)
qed

theorem search_never_idle_witness:
  "state (blind_updates (createAIState\<lparr>state := Search, currentWaypointIndex := 3\<rparr>)
            [(Vec3 1 0 2, 5 / 2, vzero, \<lambda>i. 1 / 2), (Vec3 1 0 2, 5 / 2, vzero, \<lambda>i. 1 / 2)]) = Search
   \<and> state (snd (updateAIState (createAIState\<lparr>state := Search, stateTimer := 49 / 10,
                                               currentWaypointIndex := 3\<rparr>)
                   False (Vec3 1 0 2) (1 / 10) vzero (\<lambda>i. 1 / 2))) = Search
   \<and> length (searchWaypoints
               (snd (updateAIState (createAIState\<lparr>state := Search, stateTimer := 49 / 10,
                                               currentWaypointIndex := 3\<rparr>)
                   False (Vec3 1 0 2) (1 / 10) vzero (\<lambda>i. 1 / 2)))) = 4
   \<and> currentWaypointIndex
        (snd (updateAIState (createAIState\<lparr>state := Search, stateTimer := 49 / 10,
                                               currentWaypointIndex := 3\<rparr>)
                   False (Vec3 1 0 2) (1 / 10) vzero (\<lambda>i. 1 / 2))) = 0"
proof -
  let ?a = "createAIState\<lparr>state := Search, currentWaypointIndex := 3\<rparr>"
  let ?b = "createAIState\<lparr>state := Search, stateTimer := 49 / 10, currentWaypointIndex := 3\<rparr>"
  have a: "state ?a = Search" and b: "state ?b = Search" by simp_all
  have t: "stateTimer (blind_updates ?b []) + 1 / 10 \<ge> 5"
    by (simp add: createAIState_def)
  have w1: "state (blind_updates ?a
              [(Vec3 1 0 2, 5 / 2, vzero, \<lambda>i. 1 / 2), (Vec3 1 0 2, 5 / 2, vzero, \<lambda>i. 1 / 2)]) = Search"
    using search_never_idle [OF a,
        of "[(Vec3 1 0 2, 5 / 2, vzero, \<lambda>i. 1 / 2), (Vec3 1 0 2, 5 / 2, vzero, \<lambda>i. 1 / 2)]"
           0 "Vec3 1 0 2" vzero "\<lambda>i. 1 / 2"]
    by (rule conjunct1)
  have w2: "let s' = snd (updateAIState (blind_updates ?b []) False (Vec3 1 0 2) (1 / 10) vzero (\<lambda>i. 1 / 2))
            in state s' = Search \<and> stateTimer s' = 0
               \<and> searchWaypoints s'
                   = generateSearchWaypoints (lastKnownPlayerPos (blind_updates ?b []))
                       (Vec3 ((1 / 2 :: real) - 0.5) 0 (1 / 2 - 0.5)) (\<lambda>i. 1 / 2)
               \<and> length (searchWaypoints s') = 4 \<and> currentWaypointIndex s' = 0"
    using search_never_idle [OF b, of "[]" "1 / 10" "Vec3 1 0 2" vzero "\<lambda>i. 1 / 2"] t
    by blast
  show ?thesis using w1 w2 unfolding Let_def blind_updates.simps by blast
qed

section \<open>The state machine: the waypoint invariant\<close>

lemma ai_inv_create: "ai_inv createAIState"
  by (simp add: ai_inv_def createAIState_def)

lemma ai_inv_update:
  assumes "ai_inv ai"
  shows "ai_inv (snd (updateAIState ai visible p d v rnd))"
proof (cases "state ai")
  case Idle
  with assms show ?thesis
    by (auto simp: ai_inv_def updateAIState_def updateAI_def Let_def split: if_splits)
next
  case Alert
  with assms show ?thesis
    by (auto simp: ai_inv_def updateAIState_def updateAI_def Let_def
        generateSearchWaypoints_nonempty split: if_splits)
next
  case Chase
  with assms show ?thesis
    by (auto simp: ai_inv_def updateAIState_def updateAI_def Let_def
        generateSearchWaypoints_nonempty split: if_splits)
next
  case Search
  with assms show ?thesis
    by (auto simp: ai_inv_def updateAIState_def updateAI_def Let_def
        generateSearchWaypoints_nonempty split: if_splits)
qed

lemma ai_inv_target:
  assumes "ai_inv ai"
  shows "\<exists>t ai'. getMovementTarget ai enemyPos playerPos pvel = Inr (t, ai') \<and> ai_inv ai'"
proof (cases "state ai")
  case Search
  from assms Search obtain lk v rnd where
    w: "searchWaypoints ai = generateSearchWaypoints lk v rnd" and i: "currentWaypointIndex ai < 4"
    by (auto simp: ai_inv_def split: if_splits)
  have l: "length (searchWaypoints ai) = 4"
    by (simp add: w length_generateSearchWaypoints)
  have ne: "searchWaypoints ai \<noteq> []" using l by auto
  show ?thesis using Search l i ne w
    by (auto simp: getMovementTarget_def Let_def ai_inv_def)
qed (use assms in \<open>simp_all add: getMovementTarget_def Let_def\<close>)

lemma ai_inv_step:
  assumes "ai_inv ai"
  shows "\<exists>ai'. ai_step ai c = Inr ai' \<and> ai_inv ai'"
proof (cases c)
  case (Update visible p d v rnd)
  then show ?thesis using ai_inv_update [OF assms] by simp
next
  case (Target e p v)
  from ai_inv_target [OF assms, of e p v] obtain t ai' where
    "getMovementTarget ai e p v = Inr (t, ai')" "ai_inv ai'" by blast
  then show ?thesis using Target by simp
qed

lemma ai_inv_run:
  "ai_inv ai \<Longrightarrow> \<exists>ai'. ai_run ai cs = Inr ai' \<and> ai_inv ai'"
proof (induction cs arbitrary: ai)
  case Nil
  then show ?case by simp
next
  case (Cons c cs)
  from ai_inv_step [OF Cons.prems, of c] obtain a where
    a: "ai_step ai c = Inr a" "ai_inv a" by blast
  from Cons.IH [OF a(2)] show ?case using a(1) by simp
qed

text \<open>Once a waypoint list is installed, no call empties it again.\<close>

lemma ai_step_keeps_waypoints:
  assumes "ai_step ai c = Inr ai'" and "searchWaypoints ai \<noteq> []" and "ai_inv ai"
  shows "searchWaypoints ai' \<noteq> []"
proof (cases c)
  case (Update visible p d v rnd)
  with assms show ?thesis
    by (cases "state ai")
       (auto simp: updateAIState_def updateAI_def Let_def generateSearchWaypoints_nonempty
             split: if_splits)
next
  case (Target e p v)
  with assms show ?thesis
    by (cases "state ai")
       (auto simp: getMovementTarget_def Let_def split: if_splits)
qed

lemma ai_run_keeps_waypoints:
  "ai_run ai cs = Inr ai' \<Longrightarrow> searchWaypoints ai \<noteq> [] \<Longrightarrow> ai_inv ai
     \<Longrightarrow> searchWaypoints ai' \<noteq> []"
proof (induction cs arbitrary: ai)
  case Nil
  then show ?case by simp
next
  case (Cons c cs)
  from ai_inv_step [OF Cons.prems(3), of c] obtain a where
    a: "ai_step ai c = Inr a" "ai_inv a" by blast
  have "searchWaypoints a \<noteq> []"
    using ai_step_keeps_waypoints [OF a(1) Cons.prems(2) Cons.prems(3)] .
  moreover have "ai_run a cs = Inr ai'" using Cons.prems(1) a(1) by simp
  ultimately show ?case using Cons.IH a(2) by blast
qed

subsection \<open>The geometry of a generated list\<close>

lemma lengthSq_multiplyScalar: "lengthSq (multiplyScalar a s) = s * s * lengthSq a"
  by (simp add: lengthSq_def multiplyScalar_def algebra_simps)

lemma lengthSq_nonneg: "0 \<le> lengthSq a"
  by (simp add: lengthSq_def)

lemma vlength_multiplyScalar: "vlength (multiplyScalar a s) = \<bar>s\<bar> * vlength a"
  by (simp add: vlength_def lengthSq_multiplyScalar real_sqrt_mult)

lemma vlength_normalize: "vlength a \<noteq> 0 \<Longrightarrow> vlength (normalize a) = 1"
proof -
  assume n: "vlength a \<noteq> 0"
  have p: "0 \<le> vlength a" by (simp add: vlength_def lengthSq_nonneg)
  show ?thesis using n p
    by (simp add: normalize_def divideScalar_def vlength_multiplyScalar)
qed

lemma vsub_vadd_cancel: "vsub (vadd a b) a = b"
  by (simp add: vsub_def vadd_def)

lemma sqrt_of_square: "0 \<le> a \<Longrightarrow> b = a * a \<Longrightarrow> sqrt b = a"
  by (simp add: real_sqrt_mult)

lemma projected_distance:
  assumes "1 \<le> vlength v"
  shows "distanceTo (projectedWaypoint lk v rnd) lk = min (vlength v * 2) 15"
proof -
  have n: "vlength (normalize v) = 1" using assms by (intro vlength_normalize) simp
  have "0 \<le> min (vlength v * 2) 15" using assms by simp
  then show ?thesis using assms n
    by (simp add: projectedWaypoint_def Let_def distanceTo_def vsub_vadd_cancel
        vlength_multiplyScalar)
qed

lemma spiral_radius:
  "(vx (spiralWaypoint lk rnd k i) - vx lk)\<^sup>2 + (vz (spiralWaypoint lk rnd k i) - vz lk)\<^sup>2 = 15\<^sup>2"
proof -
  define a where "a = spiralAngle rnd k i"
  have c: "(cos a)\<^sup>2 = 1 - (sin a)\<^sup>2"
    by (simp add: cos_squared_eq)
  have "(cos a * 15)\<^sup>2 + (sin a * 15)\<^sup>2 = 15\<^sup>2"
    unfolding power_mult_distrib c by (simp add: algebra_simps)
  then show ?thesis by (simp add: spiralWaypoint_def searchRadius_def a_def)
qed

lemma gen_nth:
  "generateSearchWaypoints lk v rnd ! 0 = projectedWaypoint lk v rnd"
  "generateSearchWaypoints lk v rnd ! 1 = spiralWaypoint lk rnd (if vlength v < 1 then 2 else 0) 1"
  "generateSearchWaypoints lk v rnd ! 2 = spiralWaypoint lk rnd (if vlength v < 1 then 2 else 0) 2"
  "generateSearchWaypoints lk v rnd ! 3 = spiralWaypoint lk rnd (if vlength v < 1 then 2 else 0) 3"
  by (simp_all add: generateSearchWaypoints_def Let_def upt_rec numeral_2_eq_2 numeral_3_eq_3)

text \<open>
  Claim C3.  Take any state \<open>s1\<close> that the machine reaches from \<open>createAIState\<close> by an
  interleaving of \<open>updateAIState\<close> and \<open>getMovementTarget\<close> calls and that is in the
  search state.  Then every further interleaving of the two calls runs without an
  error and ends in a state whose \<open>searchWaypoints\<close> is a list produced by
  \<open>generateSearchWaypoints\<close>, of length exactly 4, with \<open>currentWaypointIndex\<close> below that
  length.  A generated list has this shape: its first entry is the last-known
  position moved along the normalized velocity by \<open>min(speed * 2, 15)\<close> (at that
  distance from it when the speed is at least 1), with a jitter of
  \<open>((random - 0.5) * 5, 0, (random - 0.5) * 5)\<close> added when the speed is below 1; entries
  1 to 3 lie at the height of the last-known position, at horizontal distance 15 from
  it, at the angles \<open>i * (pi / 1.5) + random\<close>.
\<close>

theorem search_waypoints_invariant:
  assumes "ai_run createAIState cs1 = Inr s1" and "state s1 = Search"
  shows "(\<exists>s2 lk0 v0 rnd0. ai_run s1 cs2 = Inr s2
            \<and> searchWaypoints s2 = generateSearchWaypoints lk0 v0 rnd0
            \<and> length (searchWaypoints s2) = 4
            \<and> currentWaypointIndex s2 < length (searchWaypoints s2))
       \<and> length (generateSearchWaypoints lk v rnd) = 4
       \<and> generateSearchWaypoints lk v rnd ! 0
           = vadd (vadd lk (multiplyScalar (normalize v) (min (vlength v * 2) 15)))
                  (if vlength v < 1 then Vec3 ((rnd 0 - 1 / 2) * 5) 0 ((rnd 1 - 1 / 2) * 5)
                   else vzero)
       \<and> (1 \<le> vlength v \<longrightarrow>
            distanceTo (generateSearchWaypoints lk v rnd ! 0) lk = min (vlength v * 2) 15)
       \<and> (\<forall>i \<in> {1, 2, 3}.
            generateSearchWaypoints lk v rnd ! i
              = Vec3 (vx lk + cos (real i * (pi / 1.5) + rnd ((if vlength v < 1 then 2 else 0) + i - 1)) * 15)
                     (vy lk)
                     (vz lk + sin (real i * (pi / 1.5) + rnd ((if vlength v < 1 then 2 else 0) + i - 1)) * 15)
            \<and> (vx (generateSearchWaypoints lk v rnd ! i) - vx lk)\<^sup>2
                + (vz (generateSearchWaypoints lk v rnd ! i) - vz lk)\<^sup>2 = 15\<^sup>2)"
proof -
  have inv1: "ai_inv s1"
    using ai_inv_run [OF ai_inv_create, of cs1] assms(1) by auto
  have ne1: "searchWaypoints s1 \<noteq> []"
    using inv1 assms(2) by (auto simp: ai_inv_def split: if_splits)
  from ai_inv_run [OF inv1, of cs2] obtain s2 where
    s2: "ai_run s1 cs2 = Inr s2" "ai_inv s2" by blast
  have ne2: "searchWaypoints s2 \<noteq> []"
    using ai_run_keeps_waypoints [OF s2(1) ne1 inv1] .
  from s2(2) ne2 obtain lk0 v0 rnd0 where
    g: "searchWaypoints s2 = generateSearchWaypoints lk0 v0 rnd0"
    and i: "currentWaypointIndex s2 < 4"
    by (auto simp: ai_inv_def split: if_splits)
  have A: "\<exists>s2 lk0 v0 rnd0. ai_run s1 cs2 = Inr s2
            \<and> searchWaypoints s2 = generateSearchWaypoints lk0 v0 rnd0
            \<and> length (searchWaypoints s2) = 4
            \<and> currentWaypointIndex s2 < length (searchWaypoints s2)"
    using s2(1) g i by (auto simp: length_generateSearchWaypoints)
  have B: "generateSearchWaypoints lk v rnd ! 0
           = vadd (vadd lk (multiplyScalar (normalize v) (min (vlength v * 2) 15)))
                  (if vlength v < 1 then Vec3 ((rnd 0 - 1 / 2) * 5) 0 ((rnd 1 - 1 / 2) * 5)
                   else vzero)"
    by (simp add: gen_nth projectedWaypoint_def Let_def vadd_def vzero_def)
  have C: "1 \<le> vlength v \<longrightarrow>
            distanceTo (generateSearchWaypoints lk v rnd ! 0) lk = min (vlength v * 2) 15"
    by (simp add: gen_nth(1) projected_distance)
  have D: "\<forall>i \<in> {1, 2, 3}.
            generateSearchWaypoints lk v rnd ! i
              = Vec3 (vx lk + cos (real i * (pi / 1.5) + rnd ((if vlength v < 1 then 2 else 0) + i - 1)) * 15)
                     (vy lk)
                     (vz lk + sin (real i * (pi / 1.5) + rnd ((if vlength v < 1 then 2 else 0) + i - 1)) * 15)
            \<and> (vx (generateSearchWaypoints lk v rnd ! i) - vx lk)\<^sup>2
                + (vz (generateSearchWaypoints lk v rnd ! i) - vz lk)\<^sup>2 = 15\<^sup>2"
  proof
    fix i :: nat
    assume "i \<in> {1, 2, 3}"
    then have e: "generateSearchWaypoints lk v rnd ! i
                    = spiralWaypoint lk rnd (if vlength v < 1 then 2 else 0) i"
      using gen_nth(2-4) [of lk v rnd] by auto
    show "generateSearchWaypoints lk v rnd ! i
              = Vec3 (vx lk + cos (real i * (pi / 1.5) + rnd ((if vlength v < 1 then 2 else 0) + i - 1)) * 15)
                     (vy lk)
                     (vz lk + sin (real i * (pi / 1.5) + rnd ((if vlength v < 1 then 2 else 0) + i - 1)) * 15)
            \<and> (vx (generateSearchWaypoints lk v rnd ! i) - vx lk)\<^sup>2
                + (vz (generateSearchWaypoints lk v rnd ! i) - vz lk)\<^sup>2 = 15\<^sup>2"
      unfolding e
      by (rule conjI)
         (simp add: spiralWaypoint_def spiralAngle_def angleStep_def searchRadius_def,
          rule spiral_radius)
  qed
  show ?thesis using A B C D length_generateSearchWaypoints by blast
qed

theorem search_waypoints_invariant_witness:
  "state (snd (updateAIState (snd (updateAIState createAIState True (Vec3 3 0 4) (1 / 10) vzero (\<lambda>i. 1 / 2)))
                 False (Vec3 3 0 4) (1 / 10) vzero (\<lambda>i. 1 / 2))) = Search
   \<and> (\<exists>s2. ai_run (snd (updateAIState (snd (updateAIState createAIState True (Vec3 3 0 4) (1 / 10) vzero (\<lambda>i. 1 / 2)))
                        False (Vec3 3 0 4) (1 / 10) vzero (\<lambda>i. 1 / 2)))
               [Target (Vec3 3 0 4) (Vec3 9 0 9) vzero] = Inr s2
          \<and> length (searchWaypoints s2) = 4
          \<and> currentWaypointIndex s2 < length (searchWaypoints s2))
   \<and> (1::real) \<le> vlength (Vec3 3 0 4)
   \<and> distanceTo (generateSearchWaypoints vzero (Vec3 3 0 4) (\<lambda>i. 1 / 2) ! 0) vzero = 10"
proof -
  let ?r = "\<lambda>i::nat. 1 / 2 :: real"
  let ?s1 = "snd (updateAIState (snd (updateAIState createAIState True (Vec3 3 0 4) (1 / 10) vzero ?r))
                 False (Vec3 3 0 4) (1 / 10) vzero ?r)"
  have h1: "ai_run createAIState
              [Update True (Vec3 3 0 4) (1 / 10) vzero ?r, Update False (Vec3 3 0 4) (1 / 10) vzero ?r]
            = Inr ?s1"
    by simp
  have h2: "state ?s1 = Search"
    by (simp add: updateAIState_def updateAI_def createAIState_def Let_def)
  have l: "vlength (Vec3 3 0 4) = 5"
    by (simp add: vlength_def lengthSq_def sqrt_of_square)
  show ?thesis
    using search_waypoints_invariant [OF h1 h2, of "[Target (Vec3 3 0 4) (Vec3 9 0 9) vzero]"
        vzero "Vec3 3 0 4" ?r] h2 l
    by auto
qed

text \<open>
  Claim C4.  A call of \<open>updateAIState\<close> whose visibility signal is false and which is
  not a transition into search (from another state) leaves \<open>lastKnownPlayerPos\<close> as it
  was.  So the field changes only in a call that sees the player or that enters
  search.
\<close>

theorem lastKnown_only_when_visible_or_entering_search:
  assumes "\<not> playerVisible"
    and "\<not> (state ai \<noteq> Search
            \<and> state (snd (updateAIState ai playerVisible playerPos delta pvel rnd)) = Search)"
  shows "lastKnownPlayerPos (snd (updateAIState ai playerVisible playerPos delta pvel rnd))
           = lastKnownPlayerPos ai"
  using assms
  by (cases "state ai") (simp_all add: updateAIState_def updateAI_def Let_def)

theorem lastKnown_only_when_visible_or_entering_search_witness:
  "lastKnownPlayerPos
     (snd (updateAIState (createAIState\<lparr>lastKnownPlayerPos := Vec3 1 2 3\<rparr>)
             False (Vec3 7 8 9) (1 / 10) vzero (\<lambda>i. 0))) = Vec3 1 2 3
   \<and> lastKnownPlayerPos
       (snd (updateAIState (createAIState\<lparr>state := Search, stateTimer := 5,
                                           lastKnownPlayerPos := Vec3 1 2 3\<rparr>)
             False (Vec3 7 8 9) (1 / 10) vzero (\<lambda>i. 0))) = Vec3 1 2 3"
proof -
  let ?a = "createAIState\<lparr>lastKnownPlayerPos := Vec3 1 2 3\<rparr>"
  let ?b = "createAIState\<lparr>state := Search, stateTimer := 5, lastKnownPlayerPos := Vec3 1 2 3\<rparr>"
  have a: "\<not> (state ?a \<noteq> Search
             \<and> state (snd (updateAIState ?a False (Vec3 7 8 9) (1 / 10) vzero (\<lambda>i. 0))) = Search)"
    by (simp add: updateAIState_def updateAI_def createAIState_def Let_def)
  have b: "\<not> (state ?b \<noteq> Search
             \<and> state (snd (updateAIState ?b False (Vec3 7 8 9) (1 / 10) vzero (\<lambda>i. 0))) = Search)"
    by simp
  have f: "\<not> False" by simp
  show ?thesis
    using lastKnown_only_when_visible_or_entering_search [OF f a]
      lastKnown_only_when_visible_or_entering_search [OF f b]
    by simp
qed

section \<open>The player's motion controller: hitch recovery and braking\<close>

lemma torques_append: "torques (a @ b) = torques a @ torques b"
  by (induction a rule: torques.induct) simp_all

lemma torques_hitchRecovery: "torques (fst (hitchRecovery h v r)) = []"
  by (simp add: hitchRecovery_def)

lemma torques_playerFallReset: "torques (playerFallReset p) = []"
  by (simp add: playerFallReset_def)

text \<open>A frame that passes the guards and runs while the game is playing applies one torque.\<close>

lemma playerFrame_torques:
  assumes "\<not> p_isPaused inp" "p_refMounted inp" "p_gameState inp = Playing"
  shows "torques (fst (playerFrame inp r)) = [playerTorque inp]"
proof -
  obtain e1 r1 where h: "hitchRecovery (p_delta inp > MAX_DELTA) (p_velocity inp) r = (e1, r1)"
    by (cases "hitchRecovery (p_delta inp > MAX_DELTA) (p_velocity inp) r")
  have t1: "torques e1 = []"
    using torques_hitchRecovery [of "p_delta inp > MAX_DELTA" "p_velocity inp" r] h by simp
  show ?thesis using assms h t1
    by (simp add: playerFrame_def Let_def torques_append torques_playerFallReset)
qed

text \<open>
  What the hitch branch does when it is taken: in a frame that passes the guards, is a
  hitch, and finds a recorded velocity whose \<open>x\<close> component is not zero, the first call
  on the body sets the velocity to the recorded \<open>x\<close> and \<open>z\<close> and the current \<open>y\<close>.
\<close>

lemma hitch_restores_when_x_nonzero:
  assumes "\<not> p_isPaused inp" "p_refMounted inp" "p_delta inp > 0.05"
    and "vx (lastGoodVelocity r) \<noteq> 0"
  shows "\<exists>rest. fst (playerFrame inp r)
           = (if p_timeSinceInput inp > 10000 then [SetIsPaused True] else [])
             @ VelocitySet (Vec3 (vx (lastGoodVelocity r)) (vy (p_velocity inp))
                                 (vz (lastGoodVelocity r))) # rest"
  using assms
  by (simp add: playerFrame_def Let_def hitchRecovery_def MAX_DELTA_def)

lemma torque_straight_roll: "playerTorque straight_roll_frame = Vec3 (- 8) 0 0"
proof -
  have a: "vlength (Vec3 (- 6) 0 0) = 6" by (simp add: vlength_def lengthSq_def sqrt_of_square)
  have b: "vlength (Vec3 (- 8) 0 0) = 8" by (simp add: vlength_def lengthSq_def sqrt_of_square)
  show ?thesis
    by (simp add: playerTorque_def straight_roll_frame_def keyTorque_def directionBoost_def
        braking_def Let_def lengthSq_def a b normalize_def divideScalar_def multiplyScalar_def
        dot_def)
qed

lemma torque_hitch: "playerTorque hitch_frame = playerTorque straight_roll_frame"
  by (simp add: playerTorque_def hitch_frame_def straight_roll_frame_def)

text \<open>
  Claim C5.  The claim asks that a hitch frame that follows a non-hitch frame with a
  non-zero recorded horizontal velocity sets the body's velocity to the recorded
  horizontal components.  The code tests only the \<open>x\<close> component of the recorded
  velocity.  Here the ball rolls straight ahead: the first frame (16 ms, no hitch)
  records the velocity \<open>(0, 0, -3)\<close>, whose horizontal part is not zero; the next frame
  takes 100 ms, a hitch, and the only call it makes on the body is the torque of the
  held key: no velocity is set.
\<close>

theorem hitch_after_straight_roll_not_recovered:
  "p_delta straight_roll_frame \<le> 0.05
   \<and> lastGoodVelocity (snd (playerFrame straight_roll_frame initial_player_refs)) = Vec3 0 0 (- 3)
   \<and> p_delta hitch_frame > 0.05
   \<and> fst (playerFrame hitch_frame (snd (playerFrame straight_roll_frame initial_player_refs)))
       = [ApplyTorque (Vec3 (- 8) 0 0)]"
proof -
  have r1: "snd (playerFrame straight_roll_frame initial_player_refs)
              = \<lparr>lastGoodVelocity = Vec3 0 0 (- 3), canJump = True, p_isGrounded = True\<rparr>"
    by (simp add: playerFrame_def Let_def hitchRecovery_def MAX_DELTA_def
        straight_roll_frame_def initial_player_refs_def playerFallReset_def)
  have f2: "fst (playerFrame hitch_frame
                  \<lparr>lastGoodVelocity = Vec3 0 0 (- 3), canJump = True, p_isGrounded = True\<rparr>)
              = [ApplyTorque (playerTorque hitch_frame)]"
    by (simp add: playerFrame_def Let_def hitchRecovery_def MAX_DELTA_def
        hitch_frame_def straight_roll_frame_def playerFallReset_def)
  show ?thesis
    unfolding r1 f2 torque_hitch torque_straight_roll
    by (simp add: straight_roll_frame_def hitch_frame_def)
qed

lemma playerTorque_idle_grounded:
  assumes "\<not> key_w (p_keys inp)" "\<not> key_a (p_keys inp)" "\<not> key_s (p_keys inp)"
    "\<not> key_d (p_keys inp)" "groundLoop (p_groundHits inp)"
    "vlength (p_angularVelocity inp) > 0.1"
  shows "playerTorque inp
           = Vec3 (- vx (p_angularVelocity inp) * 2) 0 (- vz (p_angularVelocity inp) * 2)"
  using assms
  by (simp add: playerTorque_def keyTorque_def directionBoost_def braking_def Let_def
      lengthSq_def multiplyScalar_def)

text \<open>
  Claim C6, as stated, fails: the brake is built from the \<open>x\<close> and \<open>z\<close> components of
  the angular velocity only, while the test on the angular speed uses all three.  In a
  playing, grounded frame with no key held in which the ball spins about the vertical
  axis with angular speed 1, the torque applied is zero, and its dot product with the
  angular velocity is 0, not negative.
\<close>

theorem yaw_spin_not_braked:
  "groundLoop (p_groundHits yaw_spin_frame)
   \<and> vlength (p_angularVelocity yaw_spin_frame) > 0.1
   \<and> fst (playerFrame yaw_spin_frame initial_player_refs) = [ApplyTorque (Vec3 0 0 0)]
   \<and> dot (Vec3 0 0 0) (p_angularVelocity yaw_spin_frame) = 0"
  by (simp add: playerFrame_def Let_def hitchRecovery_def MAX_DELTA_def yaw_spin_frame_def
      initial_player_refs_def playerFallReset_def playerTorque_def keyTorque_def
      directionBoost_def braking_def lengthSq_def vlength_def multiplyScalar_def dot_def)

text \<open>
  Claim C6, amended.  In every frame that the controller runs while the game is playing
  (not paused, body mounted) in which no movement key is held, the ground check finds
  ground, the angular speed exceeds 0.1 and the angular velocity has a non-zero \<open>x\<close> or
  \<open>z\<close> component, the one torque applied that frame is
  \<open>(-2 * \<omega>.x, 0, -2 * \<omega>.z)\<close>; it is not zero and its dot product with the angular
  velocity is strictly negative.
\<close>

theorem brake_opposes_rolling:
  assumes "\<not> p_isPaused inp" and "p_refMounted inp" and "p_gameState inp = Playing"
    and "\<not> key_w (p_keys inp)" and "\<not> key_a (p_keys inp)"
    and "\<not> key_s (p_keys inp)" and "\<not> key_d (p_keys inp)"
    and "groundLoop (p_groundHits inp)"
    and "vlength (p_angularVelocity inp) > 0.1"
    and "vx (p_angularVelocity inp) \<noteq> 0 \<or> vz (p_angularVelocity inp) \<noteq> 0"
  shows "\<exists>t. torques (fst (playerFrame inp r)) = [t]
           \<and> t = Vec3 (- vx (p_angularVelocity inp) * 2) 0 (- vz (p_angularVelocity inp) * 2)
           \<and> t \<noteq> Vec3 0 0 0
           \<and> dot t (p_angularVelocity inp) < 0"
proof -
  let ?w = "p_angularVelocity inp"
  let ?t = "Vec3 (- vx ?w * 2) 0 (- vz ?w * 2)"
  have a: "torques (fst (playerFrame inp r)) = [?t]"
    using playerFrame_torques [OF assms(1-3)] playerTorque_idle_grounded [OF assms(4-9)] by simp
  have pos: "0 < vx ?w * vx ?w + vz ?w * vz ?w"
    using assms(10) by (metis add_pos_nonneg add_nonneg_pos not_real_square_gt_zero zero_le_square)
  have d: "dot ?t ?w = - 2 * (vx ?w * vx ?w + vz ?w * vz ?w)"
    by (simp add: dot_def algebra_simps)
  have n: "?t \<noteq> Vec3 0 0 0" using assms(10) by auto
  show ?thesis using a d n pos by simp
qed

theorem brake_opposes_rolling_witness:
  "torques (fst (playerFrame (yaw_spin_frame\<lparr>p_angularVelocity := Vec3 3 1 (- 4)\<rparr>) initial_player_refs))
     = [Vec3 (- 6) 0 8]
   \<and> dot (Vec3 (- 6) 0 8) (Vec3 3 1 (- 4)) < 0"
proof -
  let ?inp = "yaw_spin_frame\<lparr>p_angularVelocity := Vec3 3 1 (- 4)\<rparr>"
  have l: "vlength (Vec3 3 1 (- 4)) > 0.1"
  proof -
    have "(0.1::real) < sqrt 26" by (rule real_less_rsqrt) (simp add: power2_eq_square)
    then show ?thesis by (simp add: vlength_def lengthSq_def)
  qed
  have "\<exists>t. torques (fst (playerFrame ?inp initial_player_refs)) = [t]
           \<and> t = Vec3 (- vx (p_angularVelocity ?inp) * 2) 0 (- vz (p_angularVelocity ?inp) * 2)
           \<and> t \<noteq> Vec3 0 0 0
           \<and> dot t (p_angularVelocity ?inp) < 0"
    by (rule brake_opposes_rolling) (use l in \<open>simp_all add: yaw_spin_frame_def\<close>)
  then show ?thesis by (simp add: yaw_spin_frame_def)
qed

section \<open>The enemy's motion controller: velocity cap and fall reset\<close>

text \<open>With a well-formed AI state object the throttled AI tick does not throw.\<close>

lemma aiTick_ok:
  assumes "ai_inv (aiState r)"
  shows "\<exists>es r'. aiTick inp pp r = Inr (es, r') \<and> ai_inv (aiState r')"
proof (cases "e_currentTime inp - lastAIUpdate r > 1 / e_aiTickRate inp")
  case False
  then show ?thesis using assms by (simp add: aiTick_def Let_def)
next
  case True
  let ?canSee = "vlength (vsub pp (e_position inp)) < 40
                 \<and> \<not> (case e_losHits inp of [] \<Rightarrow> False
                       | h # hs \<Rightarrow> h < vlength (vsub pp (e_position inp)))"
  let ?ai1 = "snd (updateAIState (aiState r) ?canSee pp (1 / e_aiTickRate inp) (playerVel r) (e_rnd inp))"
  have "ai_inv ?ai1" using assms by (rule ai_inv_update)
  from ai_inv_target [OF this, of "e_position inp" pp "playerVel r"] obtain t ai2 where
    g: "getMovementTarget ?ai1 (e_position inp) pp (playerVel r) = Inr (t, ai2)"
    and i: "ai_inv ai2" by blast
  show ?thesis using True g i
    by (simp add: aiTick_def Let_def split_beta)
qed

lemma enemyFrame_active:
  assumes "\<not> e_isPaused inp" "e_gameState inp = Playing" "e_playerPos inp = Some pp"
    "e_refMounted inp" "ai_inv (aiState r)"
  shows "\<exists>rest r'. enemyFrame inp r = Inr (velocityCap (e_velocity inp) @ rest, r')
                    \<and> ai_inv (aiState r')"
proof -
  let ?r2 = "trackPlayerVelocity (min (e_delta inp) 0.05) pp (updateObstacleCache (e_currentTime inp) r)"
  have "aiState ?r2 = aiState r"
    by (simp add: trackPlayerVelocity_def updateObstacleCache_def)
  then have "ai_inv (aiState ?r2)" using assms(5) by simp
  from aiTick_ok [OF this, of inp pp] obtain e2 r3 where
    t: "aiTick inp pp ?r2 = Inr (e2, r3)" and i: "ai_inv (aiState r3)" by blast
  have s: "aiState (snd (enemySonar inp d r3)) = aiState r3" for d
    by (simp add: enemySonar_def Let_def)
  show ?thesis using assms(1-4) t i s
    by (simp add: enemyFrame_def Let_def split_beta)
qed

text \<open>
  Claim C7.  In every frame that the enemy controller runs (game playing, not paused,
  player position and body present, the AI state object well-formed as in Claim C3) in
  which the squared magnitude of the enemy's velocity exceeds the square of the
  threshold speed of 25 units/s, the frame completes and its first call sets the
  velocity to the current one with \<open>x\<close> and \<open>z\<close> multiplied by 0.95 and \<open>y\<close> unchanged.
  The squared magnitude of the commanded velocity is \<open>0.9025 * (x\<^sup>2 + z\<^sup>2) + y\<^sup>2\<close>: a
  scaling by 5 percent, not a clamp to the threshold, so the commanded speed can stay
  above 25.
\<close>

theorem velocity_soft_cap:
  assumes "\<not> e_isPaused inp" and "e_gameState inp = Playing" and "e_playerPos inp = Some pp"
    and "e_refMounted inp" and "ai_inv (aiState r)"
    and "lengthSq (e_velocity inp) > 25 * 25"
  shows "\<exists>capped rest r'.
           enemyFrame inp r = Inr (VelocitySet capped # rest, r')
           \<and> capped = Vec3 (vx (e_velocity inp) * 0.95) (vy (e_velocity inp)) (vz (e_velocity inp) * 0.95)
           \<and> vy capped = vy (e_velocity inp)
           \<and> lengthSq capped
               = 0.9025 * (vx (e_velocity inp) * vx (e_velocity inp)
                           + vz (e_velocity inp) * vz (e_velocity inp))
                 + vy (e_velocity inp) * vy (e_velocity inp)"
proof -
  from enemyFrame_active [OF assms(1-5)] obtain rest r' where
    f: "enemyFrame inp r = Inr (velocityCap (e_velocity inp) @ rest, r')" by blast
  have c: "velocityCap (e_velocity inp)
             = [VelocitySet (Vec3 (vx (e_velocity inp) * 0.95) (vy (e_velocity inp))
                                  (vz (e_velocity inp) * 0.95))]"
    using assms(6) by (simp add: velocityCap_def MAX_VELOCITY_def)
  show ?thesis using f unfolding c
    by (simp add: lengthSq_def algebra_simps)
qed

theorem velocity_soft_cap_witness:
  "\<exists>rest r'. enemyFrame (enemy_fall_frame\<lparr>e_velocity := Vec3 100 0 0\<rparr>) initial_enemy_refs
               = Inr (VelocitySet (Vec3 95 0 0) # rest, r')
             \<and> lengthSq (Vec3 95 0 0) > 25 * 25"
proof -
  let ?inp = "enemy_fall_frame\<lparr>e_velocity := Vec3 100 0 0\<rparr>"
  have h: "\<not> e_isPaused ?inp" "e_gameState ?inp = Playing" "e_playerPos ?inp = Some (Vec3 0 5 0)"
    "e_refMounted ?inp" "lengthSq (e_velocity ?inp) > 25 * 25"
    by (simp_all add: enemy_fall_frame_def lengthSq_def)
  have i: "ai_inv (aiState initial_enemy_refs)"
    by (simp add: initial_enemy_refs_def ai_inv_create)
  from velocity_soft_cap [OF h(1-4) i h(5)]
  show ?thesis by (auto simp: lengthSq_def)
qed

lemma fall_aiTick:
  "lastAIUpdate r = 10 \<Longrightarrow> aiTick enemy_fall_frame (Vec3 0 5 0) r = Inr ([], r)"
  by (simp add: aiTick_def Let_def enemy_fall_frame_def)

lemma fall_force:
  "state (aiState r) = Chase \<Longrightarrow>
   enemyForce enemy_fall_frame (Vec3 0 5 0) False r = [ApplyForce (Vec3 0 0 0) (Vec3 0 0 0)]"
  by (simp add: enemyForce_def Let_def enemy_fall_frame_def)

lemma fall_dist: "distanceTo (Vec3 0 (- 21) 0) (Vec3 0 5 0) = 26"
  by (simp add: distanceTo_def vsub_def vlength_def lengthSq_def sqrt_of_square)

text \<open>
  Claim C9.  The claim asks that both controllers, when the body is below \<open>y = -20\<close>,
  teleport it and zero its linear and its angular velocity.  The player's reset makes
  the three calls.  The enemy's makes two: in a playing frame with the enemy at
  \<open>y = -21\<close> the calls on the body are the frame's force, \<open>position.set(10, 20, 10)\<close> and
  \<open>velocity.set(0, 0, 0)\<close>; the angular velocity is not touched.
\<close>

theorem enemy_fall_reset_keeps_spin:
  "vy (e_position enemy_fall_frame) < - 20
   \<and> (case enemyFrame enemy_fall_frame enemy_fall_refs of
         Inl err \<Rightarrow> []
       | Inr (es, r') \<Rightarrow> es)
       = [ApplyForce (Vec3 0 0 0) (Vec3 0 0 0), PositionSet (Vec3 10 20 10), VelocitySet (Vec3 0 0 0)]
   \<and> playerFallReset (Vec3 0 (- 21) 0)
       = [PositionSet (Vec3 0 5 0), VelocitySet (Vec3 0 0 0), AngularVelocitySet (Vec3 0 0 0)]"
proof -
  let ?r2 = "trackPlayerVelocity (min (e_delta enemy_fall_frame) (1 / 20)) (Vec3 0 5 0)
               (updateObstacleCache (e_currentTime enemy_fall_frame) enemy_fall_refs)"
  have a: "lastAIUpdate ?r2 = 10" "state (aiState ?r2) = Chase" "nextPingTime ?r2 = 11"
    by (simp_all add: trackPlayerVelocity_def updateObstacleCache_def enemy_fall_refs_def
        initial_enemy_refs_def createAIState_def)
  have t: "aiTick enemy_fall_frame (Vec3 0 5 0) ?r2 = Inr ([], ?r2)"
    using a(1) by (rule fall_aiTick)
  have f: "enemyForce enemy_fall_frame (Vec3 0 5 0) False ?r2 = [ApplyForce (Vec3 0 0 0) (Vec3 0 0 0)]"
    using a(2) by (rule fall_force)
  have s: "enemySonar enemy_fall_frame 26 ?r2 = ([], ?r2)"
    using a(3) by (simp add: enemySonar_def enemy_fall_frame_def)
  have p: "e_playerPos enemy_fall_frame = Some (Vec3 0 5 0)" "e_position enemy_fall_frame = Vec3 0 (- 21) 0"
    "\<not> e_isPaused enemy_fall_frame" "e_gameState enemy_fall_frame = Playing"
    "e_refMounted enemy_fall_frame" "e_groundHits enemy_fall_frame = []"
    "e_velocity enemy_fall_frame = Vec3 0 (- 9) 0"
    by (simp_all add: enemy_fall_frame_def)
  have "enemyFrame enemy_fall_frame enemy_fall_refs
          = Inr ([ApplyForce (Vec3 0 0 0) (Vec3 0 0 0), PositionSet (Vec3 10 20 10),
                  VelocitySet (Vec3 0 0 0)], ?r2\<lparr>e_isGrounded := False\<rparr>)"
    unfolding enemyFrame_def Let_def p
    by (simp add: t f s fall_dist velocityCap_def MAX_VELOCITY_def lengthSq_def
        enemyFallReset_def p)
  then show ?thesis by (simp add: p playerFallReset_def)
qed

section \<open>The sound engine: the solid tone and the soft disable\<close>

lemma running_sonar_eq:
  "running_sonar = \<lparr>ctx = True, masterGain = True, enabled = True, sonarOsc = Some Sine,
                      sonarGain = True, nextBeepTime = 0\<rparr>"
  by (simp add: running_sonar_def startSonar_def constructSoundManager_def init_def
      newSoundManager_def quiet_env_def)

text \<open>
  What the solid-tone branch does: with the sonar running and the volume multiplier of
  the active branch above 0.001, \<open>updateSonar\<close> takes the solid tone exactly when the
  distance is below the constant 10, and the pitch of the solid tone is
  \<open>2000 - 50 * distance\<close>, which rises strictly as the distance shrinks.  No setting
  enters the comparison: \<open>updateSonar\<close> does not read \<open>audioSolidDistance\<close>.
\<close>

lemma solid_override_at_fixed_threshold:
  assumes "enabled sm" "ctx sm" "sonarOsc sm = Some osc" "sonarGain sm"
    and "(if c > 0 then audioClosingVolume s else audioOpeningVolume s) > 0.001"
  shows "d < 10 \<Longrightarrow> updateSonar env d c s None sm
           = solidTone (currentTime env) d
               (if c > 0 then audioClosingVolume s else audioOpeningVolume s) s osc sm"
    and "\<not> d < 10 \<Longrightarrow> updateSonar env d c s None sm
           = standardTone (currentTime env) d
               (if c > 0 then audioClosingMaxDist s else audioOpeningMaxDist s)
               (if c > 0 then audioClosingPitch s else audioOpeningPitch s)
               (if c > 0 then audioClosingVolume s else audioOpeningVolume s) s osc sm"
  using assms by (auto simp: updateSonar_def Let_def SOLID_THRESHOLD_def)

lemma solidPitch_linear: "solidPitch d = 2000 - 50 * d"
  by (simp add: solidPitch_def SOLID_THRESHOLD_def algebra_simps)

lemma solidPitch_strict: "d1 < d2 \<Longrightarrow> solidPitch d2 < solidPitch d1"
  by (simp add: solidPitch_linear)

lemma updateSonar_ignores_audioSolidDistance:
  "updateSonar env d c (s\<lparr>audioSolidDistance := t\<rparr>) dm sm = updateSonar env d c s dm sm"
  by (simp add: updateSonar_def Let_def standardTone_def solidTone_def
      split: option.splits)

text \<open>
  Claim C8.  The claim asks that the solid tone be taken exactly when the distance is
  below the configurable solid threshold, the setting \<open>audioSolidDistance\<close>.  With the
  sonar running and the default settings but the threshold set to 20, a distance of 15
  is below the threshold and \<open>updateSonar\<close> plays the standard tone (pitch 1272, time
  constant 0.1); with the threshold set to 5, a distance of 7 is not below it and
  \<open>updateSonar\<close> plays the solid tone (pitch 1650, time constant 0.05).
\<close>

theorem solid_distance_setting_ignored:
  "(15::real) < audioSolidDistance (default_settings\<lparr>audioSolidDistance := 20\<rparr>)
   \<and> fst (updateSonar quiet_env 15 1 (default_settings\<lparr>audioSolidDistance := 20\<rparr>) None running_sonar)
       = [SonarFreqTargetAt 1272 0 0.1, SonarGainTargetAt 0.405 0 0.1]
   \<and> \<not> (7::real) < audioSolidDistance (default_settings\<lparr>audioSolidDistance := 5\<rparr>)
   \<and> fst (updateSonar quiet_env 7 1 (default_settings\<lparr>audioSolidDistance := 5\<rparr>) None running_sonar)
       = [SonarOscType Triangle, SonarFreqTargetAt 1650 0 0.05, SonarGainCancel 0,
          SonarGainTargetAt 0.5 0 0.1]"
  by (simp add: running_sonar_eq updateSonar_def Let_def default_settings_def quiet_env_def
      SOLID_THRESHOLD_def standardTone_def solidTone_def solidPitch_def power2_eq_square)

text \<open>
  The soft disable: when the backend fails in \<open>init\<close> the flag is false afterwards, and
  with the flag false or no context the playing methods make no call on the audio graph
  and change no field (the two cues that use \<open>setTimeout\<close> still schedule their second
  beep, which is then such a call).
\<close>

lemma init_failure_disables:
  "backend \<noteq> Available \<Longrightarrow> \<not> enabled (snd (constructSoundManager backend))"
  by (cases backend) (simp_all add: constructSoundManager_def init_def newSoundManager_def)

lemma disabled_calls_are_noops:
  assumes "\<not> enabled sm \<or> \<not> ctx sm"
  shows "playBeep env f d t v sm = ([], sm)"
    and "playCountdownBeep env n sm = ([], sm)"
    and "playGoSignal env sm = ([], sm)"
    and "playTagSound env sm = ([], sm)"
    and "playBonkSound env sm = ([], sm)"
    and "playPing env f sm = ([], sm)"
    and "startSonar env sm = ([], sm)"
    and "updateSonar env x c s dm sm = ([], sm)"
    and "playAlertSound env sm = ([TimeoutBeep 100 450 0.2 Square 0.4], sm)"
    and "playLostSound env sm = ([TimeoutBeep 200 300 0.4 Sine 0.2], sm)"
  using assms
  by (auto simp: playBeep_def playCountdownBeep_def playGoSignal_def playTagSound_def
      playBonkSound_def playPing_def startSonar_def updateSonar_def playAlertSound_def
      playLostSound_def split: option.splits)

lemma not_callable_updateListener: "\<not> callable ''updateListener''"
  by (simp add: callable_def SoundManager_members_def)

text \<open>Every frame of \<open>GameLogic\<close> that gets past its guard throws.\<close>

lemma gameLogic_throws_while_playing:
  "g_gameState inp = Playing \<Longrightarrow> g_playerPos inp = Some p \<Longrightarrow> g_enemyPos inp = Some e
     \<Longrightarrow> thrown (gameLogicFrame inp sm r) = Some TypeError"
  by (simp add: gameLogicFrame_def Let_def not_callable_updateListener split_beta)

text \<open>
  Claim C10.  The claim asks that no per-frame audio update issued while the game is
  playing be fatal, in particular when the audio backend is unavailable.  After a
  failed \<open>init\<close> the flag is false and \<open>updateSonar\<close> makes no call, but the frame callback
  of \<open>GameLogic\<close> then calls \<open>soundManager.updateListener\<close>, which the class does not
  define: the callback throws a \<open>TypeError\<close>.  It does so with a working backend and a
  running sonar as well.
\<close>

theorem playing_frame_throws:
  "enabled (snd (constructSoundManager ConstructorThrows)) = False
   \<and> audio (playing_frame (snd (constructSoundManager ConstructorThrows))) = []
   \<and> thrown (playing_frame (snd (constructSoundManager ConstructorThrows))) = Some TypeError
   \<and> thrown (playing_frame running_sonar) = Some TypeError"
  by (simp add: playing_frame_def gameLogicFrame_def Let_def not_callable_updateListener
      split_beta constructSoundManager_def init_def newSoundManager_def updateSonar_def)

end
